theory Spec2Isabelle
  imports
    Main
    "HOL-Library.AList"
    "HOL-Library.Word"
    "HOL-Library.List_Lexorder"
    "HOL-Library.Char_ord"
begin

section \<open>Errors\<close>

text \<open>
  Go errors are values. The three sentinel errors of the embedded store that the cache can
  meet are constructors of their own; every other error (JSON encoding and decoding, the
  orchestration client, the object codec) carries its message.
\<close>

datatype error = ErrNotFound | ErrDatabaseClosed | ErrIndexExists | Err string

fun Error :: "error \<Rightarrow> string" where
  "Error ErrNotFound = ''not found''"
| "Error ErrDatabaseClosed = ''database closed''"
| "Error ErrIndexExists = ''index exists''"
| "Error (Err msg) = msg"

section \<open>The embedded store, as far as the cache drives it\<close>

text \<open>
  The cache keeps a handle on an in-memory database of the library \<^verbatim>\<open>buntdb\<close>. The
  library is not part of the repository; the model below covers the calls the cache makes
  (\<^verbatim>\<open>View\<close>, \<^verbatim>\<open>Update\<close>, \<^verbatim>\<open>tx.Get\<close>, \<^verbatim>\<open>tx.Set\<close>, \<^verbatim>\<open>tx.Indexes\<close>,
  \<^verbatim>\<open>tx.CreateIndex\<close>). Wall-clock time is an argument, in nanoseconds; an item may carry
  the instant at which it expires.
\<close>

record item =
  val :: string
  exat :: "int option"

datatype lesser = IndexString

record index =
  pattern :: string
  lessfn :: lesser

record DB =
  closed :: bool
  items :: "(string \<times> item) list"
  idxs :: "(string \<times> index) list"

record SetOptions =
  Expires :: bool
  TTL :: "64 word"

definition expired :: "int \<Rightarrow> item \<Rightarrow> bool" where
  "expired now it = (case exat it of None \<Rightarrow> False | Some t \<Rightarrow> t < now)"

definition tx_Get :: "int \<Rightarrow> string \<Rightarrow> DB \<Rightarrow> error + string" where
  "tx_Get now key tx =
     (case map_of (items tx) key of
        None \<Rightarrow> Inl ErrNotFound
      | Some it \<Rightarrow> if expired now it then Inl ErrNotFound else Inr (val it))"

definition tx_Set :: "int \<Rightarrow> string \<Rightarrow> string \<Rightarrow> SetOptions \<Rightarrow> DB \<Rightarrow> DB" where
  "tx_Set now key v opts tx =
     tx\<lparr>items := AList.update key
          \<lparr>val = v, exat = (if Expires opts then Some (now + sint (TTL opts)) else None)\<rparr>
          (items tx)\<rparr>"

definition tx_Indexes :: "DB \<Rightarrow> error + string list" where
  "tx_Indexes tx = Inr (map fst (idxs tx))"

definition tx_CreateIndex :: "string \<Rightarrow> string \<Rightarrow> lesser \<Rightarrow> DB \<Rightarrow> DB \<times> error option" where
  "tx_CreateIndex name pat l tx =
     (if name = [] \<or> name \<in> set (map fst (idxs tx)) then (tx, Some ErrIndexExists)
      else (tx\<lparr>idxs := idxs tx @ [(name, \<lparr>pattern = pat, lessfn = l\<rparr>)]\<rparr>, None))"

text \<open>
  A read transaction runs the closure on the store; the closure's captured variables are
  its result, and keep their initial values when the transaction cannot be opened. A write
  transaction commits the closure's store when the closure returns no error and rolls back
  otherwise.
\<close>

definition db_View :: "(DB \<Rightarrow> 'c \<times> error option) \<Rightarrow> 'c \<Rightarrow> DB \<Rightarrow> 'c \<times> error option" where
  "db_View fn c db = (if closed db then (c, Some ErrDatabaseClosed) else fn db)"

definition db_Update :: "(DB \<Rightarrow> DB \<times> error option) \<Rightarrow> DB \<Rightarrow> DB \<times> error option" where
  "db_Update fn db =
     (if closed db then (db, Some ErrDatabaseClosed)
      else (case fn db of (tx, None) \<Rightarrow> (tx, None) | (tx, Some err) \<Rightarrow> (db, Some err)))"

section \<open>The cache\<close>

definition makeKey :: "string \<Rightarrow> string \<Rightarrow> string" where
  "makeKey table uid = table @ ''-'' @ uid"

text \<open>
  \<^verbatim>\<open>Cache.Get\<close> decodes into the caller's object and returns the flag \<^verbatim>\<open>missing\<close> with
  the transaction's error. The flag is set inside the closure; the return statement reads
  it once the call of \<^verbatim>\<open>View\<close> has returned, so the caller sees the closure's value.
  The JSON decoder is an argument: it takes the stored bytes and the object to fill, and
  returns the object with the decoder's error.
\<close>

definition Cache_Get ::
  "(string \<Rightarrow> 'a \<Rightarrow> 'a \<times> error option) \<Rightarrow> int \<Rightarrow> string \<Rightarrow> string \<Rightarrow> 'a \<Rightarrow> DB
     \<Rightarrow> (bool \<times> 'a) \<times> error option" where
  "Cache_Get unmarshal now table uid obj db =
     (let key = makeKey table uid;
          missing = False
      in db_View
           (\<lambda>tx. case tx_Get now key tx of
                    Inl err \<Rightarrow> ((if err = ErrNotFound then True else missing, obj), Some err)
                  | Inr v \<Rightarrow> (case unmarshal v obj of (obj', e) \<Rightarrow> ((missing, obj'), e)))
           (missing, obj) db)"

text \<open>The scan of the index names in \<^verbatim>\<open>ExpireSet\<close>, with its \<^verbatim>\<open>break\<close>.\<close>

fun indexExists :: "string \<Rightarrow> string list \<Rightarrow> bool" where
  "indexExists table [] = False"
| "indexExists table (ix # indices) = (if table = ix then True else indexExists table indices)"

text \<open>
  \<^verbatim>\<open>ExpireSet\<close>: the JSON encoder is an argument. \<^verbatim>\<open>expires\<close> is a Go \<^verbatim>\<open>int\<close>; the
  time to live is \<^verbatim>\<open>time.Duration(expires) * time.Second\<close>, a 64-bit product.
\<close>

definition Cache_ExpireSet ::
  "('a \<Rightarrow> error + string) \<Rightarrow> int \<Rightarrow> string \<Rightarrow> string \<Rightarrow> 'a \<Rightarrow> 64 word \<Rightarrow> DB
     \<Rightarrow> DB \<times> error option" where
  "Cache_ExpireSet marshal now table uid obj expires db =
     (case marshal obj of
        Inl err \<Rightarrow> (db, Some err)
      | Inr b \<Rightarrow>
          (let opts0 = \<lparr>Expires = False, TTL = 0\<rparr>;
               opts = (if 0 <s expires
                       then opts0\<lparr>Expires := True, TTL := expires * 1000000000\<rparr>
                       else opts0)
           in db_Update
                (\<lambda>tx. case tx_Indexes tx of
                         Inl err \<Rightarrow> (tx, Some err)
                       | Inr indices \<Rightarrow>
                           if \<not> indexExists table indices
                           then (case tx_CreateIndex table (makeKey table ''*'') IndexString tx of
                                   (tx', Some err) \<Rightarrow> (tx', Some err)
                                 | (tx', None) \<Rightarrow> (tx_Set now (makeKey table uid) b opts tx', None))
                           else (tx_Set now (makeKey table uid) b opts tx, None))
                db))"

definition Cache_Set ::
  "('a \<Rightarrow> error + string) \<Rightarrow> int \<Rightarrow> string \<Rightarrow> string \<Rightarrow> 'a \<Rightarrow> DB \<Rightarrow> DB \<times> error option" where
  "Cache_Set marshal now table uid obj db = Cache_ExpireSet marshal now table uid obj 0 db"

text \<open>\<^verbatim>\<open>newCache\<close> opens an in-memory database: no items, no indexes.\<close>

definition newCache :: DB where
  "newCache = \<lparr>closed = False, items = [], idxs = []\<rparr>"

text \<open>
  Modelled from the spec: the result of the point lookup that the handler calls, which
  answers \<^verbatim>\<open>Exists()\<close> and decodes with \<^verbatim>\<open>Unmarshal\<close>; its type is missing from the
  sources. The spec: "get(table, id) -> Record | NotFound".
\<close>

datatype result = NotFound | Record string

definition Exists :: "result \<Rightarrow> bool" where
  "Exists r = (case r of NotFound \<Rightarrow> False | Record b \<Rightarrow> True)"

text \<open>
  Modelled from the spec: the point lookup \<^verbatim>\<open>Get(table, uid)\<close> that the handler calls
  returns a result and an error; the cache method of this shape is missing from the
  sources. The spec: "get(table, id) -> Record | NotFound: point lookup; must distinguish
  found from not found without using a sentinel value collision", with a Local Store error
  as a third outcome. An item that has expired is not found.
\<close>

definition Cachier_Get :: "int \<Rightarrow> string \<Rightarrow> string \<Rightarrow> DB \<Rightarrow> error + result" where
  "Cachier_Get now table uid db =
     (if closed db then Inl ErrDatabaseClosed
      else (case tx_Get now (makeKey table uid) db of
              Inl err \<Rightarrow> Inr NotFound
            | Inr v \<Rightarrow> Inr (Record v)))"

text \<open>
  Modelled from the spec: the enumeration \<^verbatim>\<open>List(table)\<close> that \<^verbatim>\<open>getPodServices\<close> calls
  is missing from the sources. The spec: "listByPrefix(table, idPrefix) -> list of ids:
  returns all ids in table whose composite key matches the prefix". The ids come in the
  order of the store's item list; items that have expired are not listed.
\<close>

definition Cachier_List :: "int \<Rightarrow> string \<Rightarrow> DB \<Rightarrow> error + string list" where
  "Cachier_List now table db =
     (if closed db then Inl ErrDatabaseClosed
      else Inr (map (\<lambda>kv. drop (length (makeKey table [])) (fst kv))
                  (filter (\<lambda>kv. take (length (makeKey table [])) (fst kv) = makeKey table []
                                 \<and> \<not> expired now (snd kv))
                     (items db))))"

section \<open>Objects of the orchestration API\<close>

text \<open>
  The API's types are not part of the repository; the records hold the fields the handler
  reads. \<^verbatim>\<open>ObjectMeta\<close> is embedded in every object, so its accessors apply to all.
\<close>

record ObjectMeta =
  GetName :: string
  GetNamespace :: string
  GetUID :: string
  GetResourceVersion :: string
  GetLabels :: "string \<rightharpoonup> string"
  GetAnnotations :: "string \<rightharpoonup> string"

record ObjectReference =
  ref_Kind :: string
  ref_Namespace :: string
  ref_Name :: string
  ref_UID :: string
  ref_APIVersion :: string

record EventSource =
  src_Component :: string
  src_Host :: string

record v1_Event = ObjectMeta +
  CreationTimestamp :: int
  InvolvedObject :: ObjectReference
  Source :: EventSource
  ev_Message :: string
  ev_Reason :: string

record v1_Service = ObjectMeta +
  Selector :: "string \<rightharpoonup> string"

record PodStatus =
  StartTime :: "int option"
  PodIP :: string
  HostIP :: string

record v1_Pod = ObjectMeta +
  Kind :: string
  APIVersion :: string
  Status :: PodStatus

record Unstructured = ObjectMeta +
  GetKind :: string

definition new_Pod :: v1_Pod where
  "new_Pod = \<lparr>GetName = [], GetNamespace = [], GetUID = [], GetResourceVersion = [],
     GetLabels = Map.empty, GetAnnotations = Map.empty, Kind = [], APIVersion = [],
     Status = \<lparr>StartTime = None, PodIP = [], HostIP = []\<rparr>\<rparr>"

text \<open>The dynamically typed values of the program: map entries and arguments of \<^verbatim>\<open>Set\<close>.\<close>

datatype any = AString string | ATime "int option" | AStrings "string list"

datatype iface =
  IService v1_Service | IPods "v1_Pod list" | IBool bool | IMap "string \<rightharpoonup> any"

datatype object = EventObj v1_Event | ServiceObj v1_Service | OtherObj

section \<open>The handler\<close>

record L9Event =
  ID :: string
  Timestamp :: int
  Component :: string
  Host :: string
  Message :: string
  Namespace :: string
  Reason :: string
  ReferenceUID :: string
  ReferenceNamespace :: string
  ReferenceName :: string
  ReferenceKind :: string
  ReferenceVersion :: string
  ObjectUid :: string
  Labels :: "string \<rightharpoonup> string"
  Annotations :: "string \<rightharpoonup> string"
  Address :: "string list"
  Pod :: "string \<rightharpoonup> any"

text \<open>
  The handler's collaborators that are outside the sources are arguments, collected in one
  record: the three calls on the orchestration client, each of which is handed the cache
  and so returns the store as it leaves it (the spec: "resolveObject(reference) -> Object
  | error", "resolveNodeAddress(hostname) -> list(string) | error",
  "resolvePodsForService(service) -> list(Pod) | error"), the JSON encoder and decoders,
  and the object codec of \<^verbatim>\<open>unstructuredToPod\<close>. The decoder of a stored service returns
  the service it decoded; the JSON text \<^verbatim>\<open>null\<close>, which would leave the Go pointer nil, is
  not among the decoder's inputs.
\<close>

record Env =
  getObject :: "DB \<Rightarrow> ObjectReference \<Rightarrow> DB \<times> (error + Unstructured)"
  getNodeAddress :: "DB \<Rightarrow> string \<Rightarrow> DB \<times> (error + string list)"
  getPods :: "DB \<Rightarrow> v1_Service \<Rightarrow> DB \<times> (error + v1_Pod list)"
  json_Marshal :: "iface \<Rightarrow> error + string"
  Unmarshal_L9Event :: "string \<Rightarrow> error + L9Event"
  Unmarshal_Service :: "string \<Rightarrow> error + v1_Service"
  runtime_Encode :: "Unstructured \<Rightarrow> error + string"
  runtime_DecodeInto :: "string \<Rightarrow> v1_Pod \<Rightarrow> v1_Pod \<times> error option"

datatype logline = LogErr error | LogWords "string list"

text \<open>
  The handler owns the cache and the sending end of the channel; the channel is the list
  of the events sent so far, and the standard logger's output is the list of its lines.
\<close>

record Handler =
  db :: DB
  ch :: "L9Event list"
  logs :: "logline list"

definition eventCacheTable :: string where
  "eventCacheTable = ''events''"

definition ToLower :: "string \<Rightarrow> string" where
  "ToLower s = map (\<lambda>c. let n = (of_char c :: nat)
                        in if 65 \<le> n \<and> n \<le> 90 then char_of (n + 32) else c) s"

definition miniPodInfo :: "v1_Pod \<Rightarrow> (string \<rightharpoonup> any)" where
  "miniPodInfo p =
     [''uid'' \<mapsto> AString (GetUID p),
      ''name'' \<mapsto> AString (GetName p),
      ''namespace'' \<mapsto> AString (GetNamespace p),
      ''start_time'' \<mapsto> ATime (StartTime (Status p)),
      ''ip'' \<mapsto> AString (PodIP (Status p)),
      ''host_ip'' \<mapsto> AString (HostIP (Status p))]"

definition unstructuredToPod :: "Env \<Rightarrow> Unstructured \<Rightarrow> error + v1_Pod" where
  "unstructuredToPod env obj =
     (case runtime_Encode env obj of
        Inl err \<Rightarrow> Inl err
      | Inr json \<Rightarrow>
          (case runtime_DecodeInto env json new_Pod of
             (pod, Some err) \<Rightarrow> Inl err
           | (pod, None) \<Rightarrow> Inr (pod\<lparr>Kind := [], APIVersion := []\<rparr>)))"

text \<open>
  The loop of \<^verbatim>\<open>getPodServices\<close>: the \<^verbatim>\<open>err\<close> of the lookup inside the loop body is a
  variable of the body, so the error returned after the loop is the one of \<^verbatim>\<open>List\<close>.
\<close>

fun getPodServices_loop ::
  "Env \<Rightarrow> int \<Rightarrow> DB \<Rightarrow> string list \<Rightarrow> string list \<times> logline list
     \<Rightarrow> string list \<times> logline list" where
  "getPodServices_loop env now d [] acc = acc"
| "getPodServices_loop env now d (sId # serviceIds) (services, lg) =
     (case Cachier_Get now ''service'' sId d of
        Inl err \<Rightarrow> getPodServices_loop env now d serviceIds (services, lg)
      | Inr NotFound \<Rightarrow> getPodServices_loop env now d serviceIds (services, lg)
      | Inr (Record b) \<Rightarrow>
          (case Unmarshal_Service env b of
             Inl err \<Rightarrow> getPodServices_loop env now d serviceIds (services, lg @ [LogErr err])
           | Inr v \<Rightarrow> getPodServices_loop env now d serviceIds (services @ [GetName v], lg)))"

definition getPodServices ::
  "Env \<Rightarrow> int \<Rightarrow> DB \<Rightarrow> string \<Rightarrow> (string list \<times> error option) \<times> logline list" where
  "getPodServices env now d uid =
     (case Cachier_List now (makeKey ''pod-service'' uid) d of
        Inl err \<Rightarrow> (([], Some err), [])
      | Inr serviceIds \<Rightarrow>
          (case getPodServices_loop env now d serviceIds ([], []) of
             (services, lg) \<Rightarrow> ((services, None), lg)))"

definition addPodDetails ::
  "Env \<Rightarrow> int \<Rightarrow> DB \<Rightarrow> L9Event \<Rightarrow> Unstructured \<Rightarrow> (L9Event \<times> error option) \<times> logline list" where
  "addPodDetails env now d ne u =
     (if ToLower (GetKind u) \<noteq> ''pod'' then ((ne, None), [])
      else (case unstructuredToPod env u of
              Inl err \<Rightarrow> ((ne, Some err), [])
            | Inr p \<Rightarrow>
                (case getPodServices env now d (GetUID p) of
                   ((services, err), lg) \<Rightarrow>
                     ((ne\<lparr>Pod := (miniPodInfo p)(''impacted_services'' \<mapsto> AStrings services)\<rparr>,
                       err), lg))))"

definition makeL9Event ::
  "Env \<Rightarrow> int \<Rightarrow> DB \<Rightarrow> v1_Event \<Rightarrow> Unstructured option \<Rightarrow> string list
     \<Rightarrow> L9Event \<times> logline list" where
  "makeL9Event env now d e u address =
     (let ne = \<lparr>ID = GetUID e,
                Timestamp = CreationTimestamp e,
                Component = src_Component (Source e),
                Host = src_Host (Source e),
                Message = ev_Message e,
                Namespace = GetNamespace e,
                Reason = ev_Reason e,
                ReferenceUID = ref_UID (InvolvedObject e),
                ReferenceNamespace = [],
                ReferenceName = ref_Name (InvolvedObject e),
                ReferenceKind = [],
                ReferenceVersion = ref_APIVersion (InvolvedObject e),
                ObjectUid = [],
                Labels = Map.empty,
                Annotations = Map.empty,
                Address = address,
                Pod = Map.empty\<rparr>
      in (case u of
            None \<Rightarrow> (ne, [])
          | Some u' \<Rightarrow>
              (case addPodDetails env now d ne u' of
                 ((ne1, err), lg) \<Rightarrow>
                   (ne1\<lparr>ReferenceNamespace := GetNamespace u',
                        ReferenceKind := GetKind u',
                        ObjectUid := GetUID u',
                        Labels := GetLabels u',
                        Annotations := GetAnnotations u'\<rparr>,
                    lg @ (case err of None \<Rightarrow> [] | Some err' \<Rightarrow> [LogErr err'])))))"

fun podMap_loop :: "Env \<Rightarrow> v1_Pod list \<Rightarrow> (string \<rightharpoonup> any) \<Rightarrow> (string \<rightharpoonup> any)" where
  "podMap_loop env [] podMap = podMap"
| "podMap_loop env (p # pods) podMap =
     (case json_Marshal env (IMap (miniPodInfo p)) of
        Inl err \<Rightarrow> podMap_loop env pods (podMap(GetName p \<mapsto> AString (Error err)))
      | Inr b \<Rightarrow> podMap_loop env pods (podMap(GetName p \<mapsto> AString b)))"

definition makeL9ServiceEvent ::
  "Env \<Rightarrow> int \<Rightarrow> v1_Service \<Rightarrow> v1_Pod list \<Rightarrow> string \<Rightarrow> L9Event" where
  "makeL9ServiceEvent env now s pods eventType =
     \<lparr>ID = GetUID s @ ''-'' @ GetResourceVersion s,
      Timestamp = now div 1000000000,
      Component = GetName s,
      Host = [],
      Message = eventType,
      Namespace = GetNamespace s,
      Reason = eventType,
      ReferenceUID = [],
      ReferenceNamespace = [],
      ReferenceName = [],
      ReferenceKind = [],
      ReferenceVersion = GetResourceVersion s,
      ObjectUid = GetUID s,
      Labels = GetLabels s,
      Annotations = GetAnnotations s,
      Address = [],
      Pod = podMap_loop env pods Map.empty\<rparr>"

definition onEvent :: "Env \<Rightarrow> int \<Rightarrow> v1_Event \<Rightarrow> Handler \<Rightarrow> Handler \<times> error option" where
  "onEvent env now e h =
     (if GetNamespace e = ''kube-system'' \<or> GetNamespace e = ''kubernetes''
         \<or> GetNamespace e = ''kubernetes-dashboard''
      then (h, None)
      else (case Cachier_Get now eventCacheTable (GetUID e) (db h) of
              Inl err \<Rightarrow> (h, Some err)
            | Inr r \<Rightarrow>
                if Exists r then (h, None)
                else (case getObject env (db h) (InvolvedObject e) of
                        (db1, ro) \<Rightarrow>
                   (case getNodeAddress env db1 (src_Host (Source e)) of
                        (db2, ra) \<Rightarrow>
                   (case makeL9Event env now db2 e
                           (case ro of Inl err \<Rightarrow> None | Inr obj \<Rightarrow> Some obj)
                           (case ra of Inl err \<Rightarrow> [] | Inr addr \<Rightarrow> addr) of
                        (ne, lg) \<Rightarrow>
                          (h\<lparr>db := db2,
                             ch := ch h @ [ne],
                             logs := logs h
                               @ (case ro of Inl err \<Rightarrow> [LogErr err] | Inr obj \<Rightarrow> [])
                               @ (case ra of Inl err \<Rightarrow> [LogErr err] | Inr addr \<Rightarrow> [])
                               @ lg\<rparr>,
                           None))))))"

text \<open>The loop of \<^verbatim>\<open>onService\<close> that writes the reverse index, one table per pod.\<close>

fun setPodServices :: "Env \<Rightarrow> int \<Rightarrow> string \<Rightarrow> v1_Pod list \<Rightarrow> DB \<Rightarrow> DB \<times> error option" where
  "setPodServices env now suid [] d = (d, None)"
| "setPodServices env now suid (p # pods) d =
     (case Cache_Set (json_Marshal env) now (makeKey ''pod-service'' (GetUID p)) suid
             (IBool True) d of
        (d', Some err) \<Rightarrow> (d', Some err)
      | (d', None) \<Rightarrow> setPodServices env now suid pods d')"

text \<open>The second half of \<^verbatim>\<open>onService\<close>, from "Save service to database" on.\<close>

definition saveService ::
  "Env \<Rightarrow> int \<Rightarrow> v1_Service \<Rightarrow> string \<Rightarrow> Handler \<Rightarrow> Handler \<times> error option" where
  "saveService env now s eventType h =
     (let suid = GetUID s
      in (case Cache_Set (json_Marshal env) now ''service'' suid (IService s) (db h) of
            (db1, Some err) \<Rightarrow> (h\<lparr>db := db1\<rparr>, Some err)
          | (db1, None) \<Rightarrow>
         (case getPods env db1 s of
            (db2, Inl err) \<Rightarrow> (h\<lparr>db := db2\<rparr>, Some err)
          | (db2, Inr pods) \<Rightarrow>
         (case Cache_Set (json_Marshal env) now ''service-pods'' suid (IPods pods) db2 of
            (db3, Some err) \<Rightarrow> (h\<lparr>db := db3\<rparr>, Some err)
          | (db3, None) \<Rightarrow>
         (case setPodServices env now suid pods db3 of
            (db4, Some err) \<Rightarrow> (h\<lparr>db := db4\<rparr>, Some err)
          | (db4, None) \<Rightarrow>
              (h\<lparr>db := db4, ch := ch h @ [makeL9ServiceEvent env now s pods eventType]\<rparr>,
               None))))))"

definition onService ::
  "Env \<Rightarrow> int \<Rightarrow> v1_Service \<Rightarrow> string \<Rightarrow> Handler \<Rightarrow> Handler \<times> error option" where
  "onService env now s eventType h =
     (if GetNamespace s = ''kube-system'' \<or> GetNamespace s = ''kubernetes-dashboard''
      then (h, None)
      else if GetName s = ''kubernetes'' then (h, None)
      else (let suid = GetUID s
            in (case Cachier_Get now eventCacheTable suid (db h) of
                  Inl err \<Rightarrow> (h, Some err)
                | Inr NotFound \<Rightarrow> saveService env now s eventType h
                | Inr (Record b) \<Rightarrow>
                    (case Unmarshal_L9Event env b of
                       Inl err \<Rightarrow> (h, Some err)
                     | Inr existingService \<Rightarrow>
                         if ReferenceVersion existingService \<ge> GetResourceVersion s
                         then (h\<lparr>logs := logs h
                                  @ [LogWords [''Service'', suid, ''already processed'']]\<rparr>,
                               None)
                         else saveService env now s eventType h))))"

text \<open>The three callbacks log the error of the function they dispatch to.\<close>

definition logError :: "Handler \<times> error option \<Rightarrow> Handler" where
  "logError r = (case r of (h, None) \<Rightarrow> h | (h, Some err) \<Rightarrow> h\<lparr>logs := logs h @ [LogErr err]\<rparr>)"

definition OnAdd :: "Env \<Rightarrow> int \<Rightarrow> object \<Rightarrow> Handler \<Rightarrow> Handler" where
  "OnAdd env now obj h =
     (case obj of
        EventObj event \<Rightarrow> logError (onEvent env now event h)
      | ServiceObj s \<Rightarrow> logError (onService env now s ''addedService'' h)
      | OtherObj \<Rightarrow> h)"

definition OnUpdate :: "Env \<Rightarrow> int \<Rightarrow> object \<Rightarrow> object \<Rightarrow> Handler \<Rightarrow> Handler" where
  "OnUpdate env now oldObj newObj h =
     (case newObj of
        EventObj event \<Rightarrow> logError (onEvent env now event h)
      | ServiceObj s \<Rightarrow> logError (onService env now s ''updatedService'' h)
      | OtherObj \<Rightarrow> h)"

definition OnDelete :: "Env \<Rightarrow> int \<Rightarrow> object \<Rightarrow> Handler \<Rightarrow> Handler" where
  "OnDelete env now obj h =
     (case obj of
        EventObj event \<Rightarrow> logError (onEvent env now event h)
      | ServiceObj s \<Rightarrow> logError (onService env now s ''deletedService'' h)
      | OtherObj \<Rightarrow> h)"

section \<open>Delivery of notifications\<close>

text \<open>
  The watch subsystem calls the three callbacks one at a time, in delivery order. A
  notification comes with the instant at which it is handled.
\<close>

datatype notification = Added object | Updated object object | Deleted object

fun carried :: "notification \<Rightarrow> object" where
  "carried (Added obj) = obj"
| "carried (Updated oldObj newObj) = newObj"
| "carried (Deleted obj) = obj"

fun deliver :: "Env \<Rightarrow> int \<times> notification \<Rightarrow> Handler \<Rightarrow> Handler" where
  "deliver env (now, Added obj) h = OnAdd env now obj h"
| "deliver env (now, Updated oldObj newObj) h = OnUpdate env now oldObj newObj h"
| "deliver env (now, Deleted obj) h = OnDelete env now obj h"

fun run :: "Env \<Rightarrow> (int \<times> notification) list \<Rightarrow> Handler \<Rightarrow> Handler" where
  "run env [] h = h"
| "run env (n # ns) h = run env ns (deliver env n h)"

section \<open>A reference environment\<close>

text \<open>
  One instance of the collaborators, on which the handler can be evaluated. Its client
  leaves the store alone: it resolves an involved object of kind \<^verbatim>\<open>Pod\<close> to an object
  with the reference's name, namespace and uid and fails on every other kind, knows no node
  address, and resolves a service to the pod named by the selector's entry \<^verbatim>\<open>pod\<close>. Its
  encoder writes a service as its name and a boolean as \<^verbatim>\<open>true\<close> or \<^verbatim>\<open>false\<close>; its
  decoders read a service's name and an event's reference version back.
\<close>

definition new_L9Event :: L9Event where
  "new_L9Event = \<lparr>ID = [], Timestamp = 0, Component = [], Host = [], Message = [],
     Namespace = [], Reason = [], ReferenceUID = [], ReferenceNamespace = [],
     ReferenceName = [], ReferenceKind = [], ReferenceVersion = [], ObjectUid = [],
     Labels = Map.empty, Annotations = Map.empty, Address = [], Pod = Map.empty\<rparr>"

definition ref_env :: Env where
  "ref_env =
     \<lparr>getObject = (\<lambda>d r. (d, if ref_Kind r = ''Pod''
                              then Inr \<lparr>GetName = ref_Name r, GetNamespace = ref_Namespace r,
                                        GetUID = ref_UID r, GetResourceVersion = [],
                                        GetLabels = Map.empty, GetAnnotations = Map.empty,
                                        GetKind = ref_Kind r\<rparr>
                              else Inl (Err ''object not found''))),
      getNodeAddress = (\<lambda>d host. (d, Inl (Err ''node not found''))),
      getPods = (\<lambda>d s. (d, case Selector s ''pod'' of
                              None \<Rightarrow> Inr []
                            | Some uid \<Rightarrow> Inr [new_Pod\<lparr>GetName := uid, GetUID := uid\<rparr>])),
      json_Marshal = (\<lambda>v. case v of
                            IService s \<Rightarrow> Inr (GetName s)
                          | IPods pods \<Rightarrow> Inr (concat (map GetUID pods))
                          | IBool b \<Rightarrow> Inr (if b then ''true'' else ''false'')
                          | IMap m \<Rightarrow> Inr ''{}''),
      Unmarshal_L9Event = (\<lambda>b. Inr (new_L9Event\<lparr>ReferenceVersion := b\<rparr>)),
      Unmarshal_Service = (\<lambda>b. Inr \<lparr>GetName = b, GetNamespace = [], GetUID = [],
                                    GetResourceVersion = [], GetLabels = Map.empty,
                                    GetAnnotations = Map.empty, Selector = Map.empty\<rparr>),
      runtime_Encode = (\<lambda>u. Inr (GetUID u)),
      runtime_DecodeInto = (\<lambda>json pod. (pod\<lparr>GetUID := json\<rparr>, None))\<rparr>"

definition event1 :: v1_Event where
  "event1 = \<lparr>GetName = ''web-1.17a'', GetNamespace = ''shop'', GetUID = ''e1'',
     GetResourceVersion = ''41'', GetLabels = Map.empty, GetAnnotations = Map.empty,
     CreationTimestamp = 1600000000,
     InvolvedObject = \<lparr>ref_Kind = ''Pod'', ref_Namespace = ''shop'', ref_Name = ''web-1'',
                       ref_UID = ''p1'', ref_APIVersion = ''v1''\<rparr>,
     Source = \<lparr>src_Component = ''kubelet'', src_Host = ''node-a''\<rparr>,
     ev_Message = ''Started container'', ev_Reason = ''Started''\<rparr>"

definition service1 :: v1_Service where
  "service1 = \<lparr>GetName = ''S1'', GetNamespace = ''shop'', GetUID = ''s1'',
     GetResourceVersion = ''7'', GetLabels = Map.empty, GetAnnotations = Map.empty,
     Selector = [''pod'' \<mapsto> ''p1'']\<rparr>"

definition handler0 :: Handler where
  "handler0 = \<lparr>db = newCache, ch = [], logs = []\<rparr>"

definition event2 :: v1_Event where
  "event2 = event1\<lparr>GetUID := ''e2'',
     InvolvedObject := \<lparr>ref_Kind = ''Node'', ref_Namespace = [], ref_Name = ''node-a'',
                         ref_UID = ''n1'', ref_APIVersion = ''v1''\<rparr>\<rparr>"

text \<open>A handler whose store already holds a record for the event \<^verbatim>\<open>e1\<close>.\<close>

definition handler1 :: Handler where
  "handler1 = handler0\<lparr>db := newCache\<lparr>items := [(''events-e1'', \<lparr>val = ''{}'', exat = None\<rparr>)]\<rparr>\<rparr>"



text \<open>
  The resolution of one service id in \<^verbatim>\<open>getPodServices\<close>, as the spec words it: the id
  resolves to the name of its stored service, or to nothing when the lookup fails, finds
  no record, or the record does not decode.
\<close>

definition serviceName :: "Env \<Rightarrow> int \<Rightarrow> DB \<Rightarrow> string \<Rightarrow> string option" where
  "serviceName env now d sId =
     (case Cachier_Get now ''service'' sId d of
        Inl err \<Rightarrow> None
      | Inr NotFound \<Rightarrow> None
      | Inr (Record b) \<Rightarrow>
          (case Unmarshal_Service env b of Inl err \<Rightarrow> None | Inr v \<Rightarrow> Some (GetName v)))"

text \<open>
  A store in which the pod \<^verbatim>\<open>p1\<close> is registered with the services \<^verbatim>\<open>s1\<close>, which is
  stored, and \<^verbatim>\<open>s9\<close>, which is not.
\<close>

definition store1 :: DB where
  "store1 = newCache\<lparr>items :=
     [(''service-s1'', \<lparr>val = ''S1'', exat = None\<rparr>),
      (''pod-service-p1-s1'', \<lparr>val = ''true'', exat = None\<rparr>),
      (''pod-service-p1-s9'', \<lparr>val = ''true'', exat = None\<rparr>)]\<rparr>"

text \<open>
  A second environment, whose client writes the cache it is handed: every call stores an
  entry of its own (tables \<^verbatim>\<open>object\<close>, \<^verbatim>\<open>node\<close>, \<^verbatim>\<open>selected\<close>) before it answers
  as the reference client does, except that the node address is resolved.
\<close>

definition caching_env :: Env where
  "caching_env = ref_env
     \<lparr>getObject := (\<lambda>d r. (fst (Cache_Set Inr 0 ''object'' (ref_UID r) (ref_Kind r) d),
                            snd (getObject ref_env d r))),
      getNodeAddress := (\<lambda>d host. (fst (Cache_Set Inr 0 ''node'' host host d),
                                    Inr [''10.0.0.1''])),
      getPods := (\<lambda>d s. (fst (Cache_Set Inr 0 ''selected'' (GetUID s) (GetUID s) d),
                          snd (getPods ref_env d s)))\<rparr>"

section \<open>Properties of the cache\<close>

lemma indexExists_set: "indexExists table indices = (table \<in> set indices)"
  by (induction indices) auto

lemma ExpireSet_eq:
  "Cache_ExpireSet marshal now table uid obj expires d =
     (case marshal obj of
        Inl err \<Rightarrow> (d, Some err)
      | Inr b \<Rightarrow>
          if closed d then (d, Some ErrDatabaseClosed)
          else if table \<in> set (map fst (idxs d))
          then (d\<lparr>items := AList.update (makeKey table uid)
                   \<lparr>val = b, exat = (if 0 <s expires
                                       then Some (now + sint (expires * 1000000000))
                                       else None)\<rparr> (items d)\<rparr>, None)
          else if table = [] then (d, Some ErrIndexExists)
          else (d\<lparr>idxs := idxs d @ [(table, \<lparr>pattern = makeKey table ''*'', lessfn = IndexString\<rparr>)],
                  items := AList.update (makeKey table uid)
                   \<lparr>val = b, exat = (if 0 <s expires
                                       then Some (now + sint (expires * 1000000000))
                                       else None)\<rparr> (items d)\<rparr>, None))"
  by (simp add: Cache_ExpireSet_def db_Update_def tx_Indexes_def tx_CreateIndex_def tx_Set_def
        indexExists_set Let_def split: sum.splits)

lemma ExpireSet_success:
  assumes "Cache_ExpireSet marshal now table uid obj expires d = (d', None)"
  shows "\<exists>b. marshal obj = Inr b \<and> \<not> closed d \<and> \<not> closed d'
      \<and> items d' = AList.update (makeKey table uid)
            \<lparr>val = b, exat = (if 0 <s expires then Some (now + sint (expires * 1000000000)) else None)\<rparr>
            (items d)
      \<and> idxs d' = (if table \<in> set (map fst (idxs d)) then idxs d
                    else idxs d @ [(table, \<lparr>pattern = makeKey table ''*'', lessfn = IndexString\<rparr>)])"
proof (cases "marshal obj")
  case (Inl err)
  with assms show ?thesis by (simp add: ExpireSet_eq)
next
  case (Inr b)
  with assms show ?thesis
    by (cases "closed d"; cases "table \<in> set (map fst (idxs d))"; cases "table = []")
       (auto simp: ExpireSet_eq)
qed

lemma ExpireSet_failure:
  assumes "Cache_ExpireSet marshal now table uid obj expires d = (d', Some err)"
  shows "d' = d"
  using assms by (simp add: ExpireSet_eq split: sum.splits if_splits)

lemma Set_success:
  assumes "Cache_Set marshal now table uid obj d = (d', None)"
  shows "\<exists>b. marshal obj = Inr b \<and> \<not> closed d \<and> \<not> closed d'
      \<and> items d' = AList.update (makeKey table uid) \<lparr>val = b, exat = None\<rparr> (items d)
      \<and> idxs d' = (if table \<in> set (map fst (idxs d)) then idxs d
                    else idxs d @ [(table, \<lparr>pattern = makeKey table ''*'', lessfn = IndexString\<rparr>)])"
  using ExpireSet_success[of marshal now table uid obj 0 d d'] assms
  by (simp add: Cache_Set_def)

lemma Set_failure:
  assumes "Cache_Set marshal now table uid obj d = (d', Some err)"
  shows "d' = d"
  using assms ExpireSet_failure by (simp add: Cache_Set_def)

lemma ExpireSet_succeeds_iff:
  "(\<exists>d1. Cache_ExpireSet marshal now table uid obj expires d = (d1, None))
     = ((\<exists>b. marshal obj = Inr b) \<and> \<not> closed d
        \<and> (table \<in> set (map fst (idxs d)) \<or> table \<noteq> []))"
  by (cases "marshal obj") (auto simp: ExpireSet_eq)

lemma ExpireSet_indexed:
  assumes "marshal obj = Inr b" and "\<not> closed d" and "table \<in> set (map fst (idxs d))"
  shows "Cache_ExpireSet marshal now table uid obj expires d
     = (d\<lparr>items := AList.update (makeKey table uid)
             \<lparr>val = b, exat = (if 0 <s expires
                                 then Some (now + sint (expires * 1000000000))
                                 else None)\<rparr> (items d)\<rparr>, None)"
  using assms by (simp add: ExpireSet_eq)

text \<open>
  C7. A successful \<^verbatim>\<open>Set\<close> or \<^verbatim>\<open>ExpireSet\<close> on a table leaves an index named after
  the table in the store. When the table had no index, the write's own transaction appends
  the string index with the pattern \<^verbatim>\<open>table-*\<close> and leaves the other indexes alone; when
  it had one, the indexes are unchanged. In the resulting store the scan of the index names
  finds the table, so every later write to the table whose value encodes returns no error,
  stores its item and leaves the indexes as they are. The first write itself returns no
  error exactly when the value encodes, the store is open, and the table has an index or a
  name that is not empty.
\<close>

theorem set_registers_index:
  assumes "Cache_ExpireSet marshal now table uid obj expires d = (d', None)
           \<or> Cache_Set marshal now table uid obj d = (d', None)"
  shows "table \<in> set (map fst (idxs d'))
       \<and> idxs d' = (if table \<in> set (map fst (idxs d)) then idxs d
                    else idxs d @ [(table, \<lparr>pattern = makeKey table ''*'', lessfn = IndexString\<rparr>)])
       \<and> (\<forall>marshal2 now2 uid2 obj2 expires2 d''.
             Cache_ExpireSet marshal2 now2 table uid2 (obj2::'b) expires2 d' = (d'', None)
             \<longrightarrow> idxs d'' = idxs d')
       \<and> (\<exists>indices. tx_Indexes d' = Inr indices \<and> indexExists table indices)
       \<and> (\<forall>marshal2 now2 uid2 obj2 expires2 b2. marshal2 (obj2::'b) = Inr b2
             \<longrightarrow> (\<exists>d''. Cache_ExpireSet marshal2 now2 table uid2 obj2 expires2 d' = (d'', None)
                     \<and> idxs d'' = idxs d'
                     \<and> map_of (items d'') (makeKey table uid2)
                         = Some \<lparr>val = b2,
                                 exat = (if 0 <s expires2
                                         then Some (now2 + sint (expires2 * 1000000000))
                                         else None)\<rparr>)
               \<and> (\<exists>d''. Cache_Set marshal2 now2 table uid2 obj2 d' = (d'', None)
                     \<and> idxs d'' = idxs d'
                     \<and> map_of (items d'') (makeKey table uid2)
                         = Some \<lparr>val = b2, exat = None\<rparr>))
       \<and> (\<exists>d1. Cache_ExpireSet marshal now table uid obj expires d = (d1, None))
           = ((\<exists>b. marshal obj = Inr b) \<and> \<not> closed d
              \<and> (table \<in> set (map fst (idxs d)) \<or> table \<noteq> []))"
proof -
  from assms obtain ex where e: "Cache_ExpireSet marshal now table uid obj ex d = (d', None)"
    unfolding Cache_Set_def by blast
  from ExpireSet_success[OF e]
  have i: "idxs d' = (if table \<in> set (map fst (idxs d)) then idxs d
                    else idxs d @ [(table, \<lparr>pattern = makeKey table ''*'', lessfn = IndexString\<rparr>)])"
    and o: "\<not> closed d'"
    by blast+
  have m: "table \<in> set (map fst (idxs d'))"
    by (cases "table \<in> set (map fst (idxs d))") (simp_all add: i)
  have 3: "idxs d'' = idxs d'"
    if t: "Cache_ExpireSet marshal2 now2 table uid2 (obj2::'b) expires2 d' = (d'', None)"
    for marshal2 now2 uid2 obj2 expires2 d''
  proof -
    from ExpireSet_success[OF t]
    have "idxs d'' = (if table \<in> set (map fst (idxs d')) then idxs d'
                    else idxs d' @ [(table, \<lparr>pattern = makeKey table ''*'', lessfn = IndexString\<rparr>)])"
      by blast
    with m show ?thesis by simp
  qed
  have 4: "\<exists>indices. tx_Indexes d' = Inr indices \<and> indexExists table indices"
    using m by (simp add: tx_Indexes_def indexExists_set)
  have 5: "(\<exists>d''. Cache_ExpireSet marshal2 now2 table uid2 obj2 expires2 d' = (d'', None)
                     \<and> idxs d'' = idxs d'
                     \<and> map_of (items d'') (makeKey table uid2)
                         = Some \<lparr>val = b2,
                                 exat = (if 0 <s expires2
                                         then Some (now2 + sint (expires2 * 1000000000))
                                         else None)\<rparr>)
               \<and> (\<exists>d''. Cache_Set marshal2 now2 table uid2 obj2 d' = (d'', None)
                     \<and> idxs d'' = idxs d'
                     \<and> map_of (items d'') (makeKey table uid2)
                         = Some \<lparr>val = b2, exat = None\<rparr>)"
    if "marshal2 (obj2::'b) = Inr b2" for marshal2 now2 uid2 obj2 expires2 b2
    by (simp add: Cache_Set_def update_conv'
        ExpireSet_indexed[where marshal = marshal2 and obj = obj2, OF that o m])
  note 6 = ExpireSet_succeeds_iff[of marshal now table uid obj expires d]
  show ?thesis
    apply (intro conjI)
         apply (rule m)
        apply (rule i)
       apply (use 3 in blast)
      apply (rule 4)
     apply (use 5 in blast)
    apply (rule 6)
    done
qed



theorem set_registers_index_witness:
  "Cache_Set (\<lambda>v::bool. Inr ''true'') 0 ''pod-service-p1'' ''s1'' True newCache
     = (\<lparr>closed = False,
         items = [(''pod-service-p1-s1'', \<lparr>val = ''true'', exat = None\<rparr>)],
         idxs = [(''pod-service-p1'', \<lparr>pattern = ''pod-service-p1-*'', lessfn = IndexString\<rparr>)]\<rparr>,
        None)
   \<and> ''pod-service-p1''
       \<in> set (map fst (idxs (fst (Cache_Set (\<lambda>v::bool. Inr ''true'') 0 ''pod-service-p1'' ''s1''
                                     True newCache))))
   \<and> (\<exists>d''. Cache_ExpireSet (\<lambda>v::bool. Inr ''true'') 9 ''pod-service-p1'' ''s2'' True 30
              (fst (Cache_Set (\<lambda>v::bool. Inr ''true'') 0 ''pod-service-p1'' ''s1'' True newCache))
            = (d'', None)
          \<and> idxs d''
             = [(''pod-service-p1'', \<lparr>pattern = ''pod-service-p1-*'', lessfn = IndexString\<rparr>)]
          \<and> map_of (items d'') ''pod-service-p1-s2''
             = Some \<lparr>val = ''true'', exat = Some 30000000009\<rparr>)"
proof -
  have h: "Cache_Set (\<lambda>v::bool. Inr ''true'') 0 ''pod-service-p1'' ''s1'' True newCache
     = (\<lparr>closed = False,
         items = [(''pod-service-p1-s1'', \<lparr>val = ''true'', exat = None\<rparr>)],
         idxs = [(''pod-service-p1'', \<lparr>pattern = ''pod-service-p1-*'', lessfn = IndexString\<rparr>)]\<rparr>,
        None)"
    by (simp add: Cache_Set_def ExpireSet_eq newCache_def makeKey_def)
  have t: "(0::64 word) <s 30"
    by (simp add: word_sless_alt)
  note T = set_registers_index[OF disjI2[OF h], where ?'b = bool]
  note T1 = T[THEN conjunct1]
  note T5 = T[THEN conjunct2, THEN conjunct2, THEN conjunct2, THEN conjunct2, THEN conjunct1,
      rule_format, of "\<lambda>v. Inr ''true''" True "''true''" 9 "''s2''" 30, OF refl, THEN conjunct1]
  from T1 T5 h t show ?thesis
    by (simp add: makeKey_def)
qed



text \<open>
  C8 fails as stated: on a fresh store \<^verbatim>\<open>Set\<close> on the table with the empty name returns
  the error \<^verbatim>\<open>ErrIndexExists\<close> and leaves the store as it was, and the lookup that follows
  reports the key missing.
\<close>

theorem set_get_empty_table_counterexample:
  "Cache_Set (\<lambda>v::nat. Inr ''{n:7}'') 0 [] ''s1'' 7 newCache = (newCache, Some ErrIndexExists)
   \<and> Cache_Get (\<lambda>b x. (b, None)) 5 [] ''s1'' [] newCache = ((True, []), Some ErrNotFound)"
  by (simp add: Cache_Set_def ExpireSet_eq Cache_Get_def db_View_def tx_Get_def newCache_def)

text \<open>
  C9. When the JSON encoding of the value fails, \<^verbatim>\<open>ExpireSet\<close> returns the encoder's error
  and the store it was given, whatever the store's state: the write transaction is never
  opened, so no key is written and no index is created.
\<close>

theorem ExpireSet_marshal_failure:
  assumes "marshal obj = Inl err"
  shows "Cache_ExpireSet marshal now table uid obj expires d = (d, Some err)"
  using assms by (simp add: Cache_ExpireSet_def)

theorem ExpireSet_marshal_failure_witness:
  "Cache_ExpireSet (\<lambda>v::nat. Inl (Err ''json: unsupported value'')) 0 ''service'' ''s1'' 7 30
     (newCache\<lparr>closed := True\<rparr>)
   = (newCache\<lparr>closed := True\<rparr>, Some (Err ''json: unsupported value''))"
  using ExpireSet_marshal_failure[of "\<lambda>v::nat. Inl (Err ''json: unsupported value'')" 7
      "Err ''json: unsupported value''" 0 "''service''" "''s1''" 30 "newCache\<lparr>closed := True\<rparr>"]
  by simp

section \<open>Properties of the handler\<close>

lemma addPodDetails_shape:
  "\<exists>pm. fst (fst (addPodDetails env now d ne u)) = ne\<lparr>Pod := pm\<rparr>"
proof (cases "ToLower (GetKind u) \<noteq> ''pod''")
  case True
  then have "fst (fst (addPodDetails env now d ne u)) = ne\<lparr>Pod := Pod ne\<rparr>"
    by (simp add: addPodDetails_def)
  then show ?thesis by blast
next
  case False
  show ?thesis
  proof (cases "unstructuredToPod env u")
    case (Inl err)
    with False have "fst (fst (addPodDetails env now d ne u)) = ne\<lparr>Pod := Pod ne\<rparr>"
      by (simp add: addPodDetails_def)
    then show ?thesis by blast
  next
    case (Inr p)
    with False show ?thesis
      by (simp add: addPodDetails_def split: prod.splits) blast
  qed
qed

lemma makeL9Event_ID: "ID (fst (makeL9Event env now d e u address)) = GetUID e"
proof (cases u)
  case None
  then show ?thesis by (simp add: makeL9Event_def)
next
  case (Some u')
  let ?ne = "\<lparr>ID = GetUID e, Timestamp = CreationTimestamp e,
       Component = src_Component (Source e),
       Host = src_Host (Source e), Message = ev_Message e, Namespace = GetNamespace e,
       Reason = ev_Reason e, ReferenceUID = ref_UID (InvolvedObject e),
       ReferenceNamespace = [], ReferenceName = ref_Name (InvolvedObject e),
       ReferenceKind = [], ReferenceVersion = ref_APIVersion (InvolvedObject e),
       ObjectUid = [], Labels = Map.empty, Annotations = Map.empty, Address = address,
       Pod = Map.empty\<rparr>"
  from addPodDetails_shape[of env now d ?ne u']
  obtain pm where p: "fst (fst (addPodDetails env now d ?ne u')) = ?ne\<lparr>Pod := pm\<rparr>"
    by blast
  have "fst (makeL9Event env now d e (Some u') address)
      = (fst (fst (addPodDetails env now d ?ne u')))
          \<lparr>ReferenceNamespace := GetNamespace u', ReferenceKind := GetKind u',
           ObjectUid := GetUID u', Labels := GetLabels u',
           Annotations := GetAnnotations u'\<rparr>"
    by (simp add: makeL9Event_def split: prod.splits)
  with p Some show ?thesis by simp
qed

lemma makeL9Event_Address: "Address (fst (makeL9Event env now d e u address)) = address"
proof (cases u)
  case None
  then show ?thesis by (simp add: makeL9Event_def)
next
  case (Some u')
  let ?ne = "\<lparr>ID = GetUID e, Timestamp = CreationTimestamp e,
       Component = src_Component (Source e),
       Host = src_Host (Source e), Message = ev_Message e, Namespace = GetNamespace e,
       Reason = ev_Reason e, ReferenceUID = ref_UID (InvolvedObject e),
       ReferenceNamespace = [], ReferenceName = ref_Name (InvolvedObject e),
       ReferenceKind = [], ReferenceVersion = ref_APIVersion (InvolvedObject e),
       ObjectUid = [], Labels = Map.empty, Annotations = Map.empty, Address = address,
       Pod = Map.empty\<rparr>"
  from addPodDetails_shape[of env now d ?ne u']
  obtain pm where p: "fst (fst (addPodDetails env now d ?ne u')) = ?ne\<lparr>Pod := pm\<rparr>"
    by blast
  have "fst (makeL9Event env now d e (Some u') address)
      = (fst (fst (addPodDetails env now d ?ne u')))
          \<lparr>ReferenceNamespace := GetNamespace u', ReferenceKind := GetKind u',
           ObjectUid := GetUID u', Labels := GetLabels u',
           Annotations := GetAnnotations u'\<rparr>"
    by (simp add: makeL9Event_def split: prod.splits)
  with p Some show ?thesis by simp
qed

lemma makeL9Event_unresolved:
  "makeL9Event env now d e None address =
     (\<lparr>ID = GetUID e, Timestamp = CreationTimestamp e, Component = src_Component (Source e),
       Host = src_Host (Source e), Message = ev_Message e, Namespace = GetNamespace e,
       Reason = ev_Reason e, ReferenceUID = ref_UID (InvolvedObject e),
       ReferenceNamespace = [], ReferenceName = ref_Name (InvolvedObject e),
       ReferenceKind = [], ReferenceVersion = ref_APIVersion (InvolvedObject e),
       ObjectUid = [], Labels = Map.empty, Annotations = Map.empty, Address = address,
       Pod = Map.empty\<rparr>, [])"
  by (simp add: makeL9Event_def)

lemma onEvent_present:
  assumes "Cachier_Get now eventCacheTable (GetUID e) (db h) = Inr (Record b)"
  shows "onEvent env now e h = (h, None)"
  using assms by (simp add: onEvent_def Exists_def)

lemma onEvent_error:
  assumes "GetNamespace e \<noteq> ''kube-system''" "GetNamespace e \<noteq> ''kubernetes''"
    "GetNamespace e \<noteq> ''kubernetes-dashboard''"
    and "Cachier_Get now eventCacheTable (GetUID e) (db h) = Inl err"
  shows "onEvent env now e h = (h, Some err)"
  using assms by (simp add: onEvent_def)

lemma onEvent_absent:
  assumes "GetNamespace e \<noteq> ''kube-system''" "GetNamespace e \<noteq> ''kubernetes''"
    "GetNamespace e \<noteq> ''kubernetes-dashboard''"
    and "Cachier_Get now eventCacheTable (GetUID e) (db h) = Inr NotFound"
    and "getObject env (db h) (InvolvedObject e) = (db1, ro)"
    and "getNodeAddress env db1 (src_Host (Source e)) = (db2, ra)"
  shows "onEvent env now e h =
     (h\<lparr>db := db2,
        ch := ch h @ [fst (makeL9Event env now db2 e
                        (case ro of Inl err \<Rightarrow> None | Inr obj \<Rightarrow> Some obj)
                        (case ra of Inl err \<Rightarrow> [] | Inr addr \<Rightarrow> addr))],
        logs := logs h
           @ (case ro of Inl err \<Rightarrow> [LogErr err] | Inr obj \<Rightarrow> [])
           @ (case ra of Inl err \<Rightarrow> [LogErr err] | Inr addr \<Rightarrow> [])
           @ snd (makeL9Event env now db2 e
                        (case ro of Inl err \<Rightarrow> None | Inr obj \<Rightarrow> Some obj)
                        (case ra of Inl err \<Rightarrow> [] | Inr addr \<Rightarrow> addr))\<rparr>,
      None)"
  using assms by (simp add: onEvent_def Exists_def split: prod.splits)

lemma onEvent_pushes:
  assumes "ch (fst (onEvent env now e h)) \<noteq> ch h"
  shows "Cachier_Get now eventCacheTable (GetUID e) (db h) = Inr NotFound
       \<and> snd (onEvent env now e h) = None
       \<and> (\<exists>ne. ch (fst (onEvent env now e h)) = ch h @ [ne] \<and> ID ne = GetUID e)"
proof -
  have w: "GetNamespace e \<noteq> ''kube-system''" "GetNamespace e \<noteq> ''kubernetes''"
    "GetNamespace e \<noteq> ''kubernetes-dashboard''"
    using assms by (auto simp: onEvent_def)
  have g: "Cachier_Get now eventCacheTable (GetUID e) (db h) = Inr NotFound"
  proof (cases "Cachier_Get now eventCacheTable (GetUID e) (db h)")
    case (Inl err)
    from onEvent_error[OF w Inl] assms show ?thesis by simp
  next
    case (Inr r)
    show ?thesis
    proof (cases r)
      case NotFound
      with Inr show ?thesis by simp
    next
      case (Record b)
      with Inr onEvent_present[of now e h b env] assms show ?thesis by simp
    qed
  qed
  obtain db1 ro where o: "getObject env (db h) (InvolvedObject e) = (db1, ro)"
    by (metis surj_pair)
  obtain db2 ra where a: "getNodeAddress env db1 (src_Host (Source e)) = (db2, ra)"
    by (metis surj_pair)
  from onEvent_absent[OF w g o a] g show ?thesis
    by (simp add: makeL9Event_ID)
qed

text \<open>
  C10. \<^verbatim>\<open>OnUpdate\<close> gives the same handler, and so the same store, channel and log, for
  any two old objects: only the new object is dispatched on.
\<close>

theorem OnUpdate_ignores_oldObj:
  "OnUpdate env now oldObj newObj h = OnUpdate env now oldObj' newObj h"
  by (simp add: OnUpdate_def)

theorem OnUpdate_ignores_oldObj_witness:
  "OnUpdate ref_env 0 OtherObj (EventObj event1) handler0
     = OnUpdate ref_env 0 (ServiceObj service1) (EventObj event1) handler0"
  by (rule OnUpdate_ignores_oldObj)

lemma makeL9Event_notpod:
  assumes "ToLower (GetKind u) \<noteq> ''pod''"
  shows "makeL9Event env now d e (Some u) address =
     (\<lparr>ID = GetUID e, Timestamp = CreationTimestamp e, Component = src_Component (Source e),
       Host = src_Host (Source e), Message = ev_Message e, Namespace = GetNamespace e,
       Reason = ev_Reason e, ReferenceUID = ref_UID (InvolvedObject e),
       ReferenceNamespace = GetNamespace u, ReferenceName = ref_Name (InvolvedObject e),
       ReferenceKind = GetKind u, ReferenceVersion = ref_APIVersion (InvolvedObject e),
       ObjectUid = GetUID u, Labels = GetLabels u, Annotations = GetAnnotations u,
       Address = address, Pod = Map.empty\<rparr>, [])"
  using assms by (simp add: makeL9Event_def addPodDetails_def)

lemma makeL9Event_badpod:
  assumes "ToLower (GetKind u) = ''pod''" and "unstructuredToPod env u = Inl err"
  shows "makeL9Event env now d e (Some u) address =
     (\<lparr>ID = GetUID e, Timestamp = CreationTimestamp e, Component = src_Component (Source e),
       Host = src_Host (Source e), Message = ev_Message e, Namespace = GetNamespace e,
       Reason = ev_Reason e, ReferenceUID = ref_UID (InvolvedObject e),
       ReferenceNamespace = GetNamespace u, ReferenceName = ref_Name (InvolvedObject e),
       ReferenceKind = GetKind u, ReferenceVersion = ref_APIVersion (InvolvedObject e),
       ObjectUid = GetUID u, Labels = GetLabels u, Annotations = GetAnnotations u,
       Address = address, Pod = Map.empty\<rparr>, [LogErr err])"
  using assms by (simp add: makeL9Event_def addPodDetails_def)

lemma makeL9Event_ispod:
  assumes "ToLower (GetKind u) = ''pod''" and "unstructuredToPod env u = Inr p"
    and "getPodServices env now d (GetUID p) = ((services, er), lg)"
  shows "makeL9Event env now d e (Some u) address =
     (\<lparr>ID = GetUID e, Timestamp = CreationTimestamp e, Component = src_Component (Source e),
       Host = src_Host (Source e), Message = ev_Message e, Namespace = GetNamespace e,
       Reason = ev_Reason e, ReferenceUID = ref_UID (InvolvedObject e),
       ReferenceNamespace = GetNamespace u, ReferenceName = ref_Name (InvolvedObject e),
       ReferenceKind = GetKind u, ReferenceVersion = ref_APIVersion (InvolvedObject e),
       ObjectUid = GetUID u, Labels = GetLabels u, Annotations = GetAnnotations u,
       Address = address,
       Pod = (miniPodInfo p)(''impacted_services'' \<mapsto> AStrings services)\<rparr>,
      lg @ (case er of None \<Rightarrow> [] | Some err \<Rightarrow> [LogErr err]))"
  using assms by (simp add: makeL9Event_def addPodDetails_def)

text \<open>
  C6. For an event outside the three system namespaces whose uid has no record in the
  \<^verbatim>\<open>events\<close> table, \<^verbatim>\<open>onEvent\<close> returns no error and sends exactly one event, whatever
  the two lookups answer; the handler keeps the store as the client left it, and the log
  gains the error of each lookup that failed and then the lines of the enrichment. The
  event sent carries the event's own fields (id, timestamp, component, host, message,
  namespace, reason, reference uid, name and version) in every case, and the resolved
  address list, or the empty list when the node address is not resolved. When the
  involved object is not resolved, the fields taken from the object (reference namespace
  and kind, object uid, labels, annotations, pod map) keep their zero values; when it is
  resolved, they are the object's, and the pod map is empty unless the object is a pod
  that converts, in which case it holds the pod's details and its impacted services.
\<close>

theorem onEvent_tolerates_lookup_failures:
  assumes "GetNamespace e \<noteq> ''kube-system''" "GetNamespace e \<noteq> ''kubernetes''"
    "GetNamespace e \<noteq> ''kubernetes-dashboard''"
    and "Cachier_Get now eventCacheTable (GetUID e) (db h) = Inr NotFound"
  shows "\<exists>db1 ro db2 ra ne lg.
      getObject env (db h) (InvolvedObject e) = (db1, ro)
    \<and> getNodeAddress env db1 (src_Host (Source e)) = (db2, ra)
    \<and> onEvent env now e h
        = (h\<lparr>db := db2,
             ch := ch h @ [ne],
             logs := logs h
               @ (case ro of Inl err \<Rightarrow> [LogErr err] | Inr obj \<Rightarrow> [])
               @ (case ra of Inl err \<Rightarrow> [LogErr err] | Inr addr \<Rightarrow> [])
               @ lg\<rparr>, None)
    \<and> ID ne = GetUID e \<and> Timestamp ne = CreationTimestamp e
    \<and> Component ne = src_Component (Source e) \<and> Host ne = src_Host (Source e)
    \<and> Message ne = ev_Message e \<and> Namespace ne = GetNamespace e \<and> Reason ne = ev_Reason e
    \<and> ReferenceUID ne = ref_UID (InvolvedObject e)
    \<and> ReferenceName ne = ref_Name (InvolvedObject e)
    \<and> ReferenceVersion ne = ref_APIVersion (InvolvedObject e)
    \<and> Address ne = (case ra of Inl err \<Rightarrow> [] | Inr addr \<Rightarrow> addr)
    \<and> (case ro of
          Inl err \<Rightarrow>
            ReferenceNamespace ne = [] \<and> ReferenceKind ne = [] \<and> ObjectUid ne = []
          \<and> Labels ne = Map.empty \<and> Annotations ne = Map.empty \<and> Pod ne = Map.empty
          \<and> lg = []
        | Inr u \<Rightarrow>
            ReferenceNamespace ne = GetNamespace u \<and> ReferenceKind ne = GetKind u
          \<and> ObjectUid ne = GetUID u \<and> Labels ne = GetLabels u
          \<and> Annotations ne = GetAnnotations u
          \<and> (if ToLower (GetKind u) \<noteq> ''pod'' then Pod ne = Map.empty \<and> lg = []
              else (case unstructuredToPod env u of
                      Inl err \<Rightarrow> Pod ne = Map.empty \<and> lg = [LogErr err]
                    | Inr p \<Rightarrow>
                        Pod ne = (miniPodInfo p)(''impacted_services'' \<mapsto>
                                    AStrings (fst (fst (getPodServices env now db2 (GetUID p)))))
                      \<and> lg = snd (getPodServices env now db2 (GetUID p))
                             @ (case snd (fst (getPodServices env now db2 (GetUID p))) of
                                  None \<Rightarrow> [] | Some err \<Rightarrow> [LogErr err]))))"
proof -
  obtain db1 ro where o: "getObject env (db h) (InvolvedObject e) = (db1, ro)"
    by (metis surj_pair)
  obtain db2 ra where a: "getNodeAddress env db1 (src_Host (Source e)) = (db2, ra)"
    by (metis surj_pair)
  let ?addr = "case ra of Inl err \<Rightarrow> [] | Inr addr \<Rightarrow> addr"
  note r = onEvent_absent[OF assms o a]
  show ?thesis
  proof (cases ro)
    case (Inl err)
    show ?thesis
      apply (rule exI[of _ db1], rule exI[of _ ro], rule exI[of _ db2], rule exI[of _ ra])
      apply (rule exI[of _ "fst (makeL9Event env now db2 e None ?addr)"])
      apply (rule exI[of _ "[]"])
      apply (simp add: o a r Inl makeL9Event_unresolved)
      done
  next
    case (Inr u)
    show ?thesis
    proof (cases "ToLower (GetKind u) \<noteq> ''pod''")
      case True
      show ?thesis
        apply (rule exI[of _ db1], rule exI[of _ ro], rule exI[of _ db2], rule exI[of _ ra])
        apply (rule exI[of _ "fst (makeL9Event env now db2 e (Some u) ?addr)"])
        apply (rule exI[of _ "[]"])
        apply (simp add: o a r Inr True makeL9Event_notpod[OF True])
        done
    next
      case False
      then have k: "ToLower (GetKind u) = ''pod''" by simp
      show ?thesis
      proof (cases "unstructuredToPod env u")
        case bad: (Inl err)
        show ?thesis
          apply (rule exI[of _ db1], rule exI[of _ ro], rule exI[of _ db2], rule exI[of _ ra])
          apply (rule exI[of _ "fst (makeL9Event env now db2 e (Some u) ?addr)"])
          apply (rule exI[of _ "[LogErr err]"])
          apply (simp add: o a r Inr k bad makeL9Event_badpod[OF k bad])
          done
      next
        case pod: (Inr p)
        obtain services er lg where g: "getPodServices env now db2 (GetUID p) = ((services, er), lg)"
          by (metis surj_pair)
        show ?thesis
          apply (rule exI[of _ db1], rule exI[of _ ro], rule exI[of _ db2], rule exI[of _ ra])
          apply (rule exI[of _ "fst (makeL9Event env now db2 e (Some u) ?addr)"])
          apply (rule exI[of _ "lg @ (case er of None \<Rightarrow> [] | Some err \<Rightarrow> [LogErr err])"])
          apply (simp add: o a r Inr k pod g makeL9Event_ispod[OF k pod g])
          done
      qed
    qed
  qed
qed

theorem onEvent_tolerates_lookup_failures_witness:
  "onEvent ref_env 0 event2 handler0
     = (handler0\<lparr>ch := [\<lparr>ID = ''e2'', Timestamp = 1600000000, Component = ''kubelet'',
                            Host = ''node-a'', Message = ''Started container'',
                            Namespace = ''shop'', Reason = ''Started'', ReferenceUID = ''n1'',
                            ReferenceNamespace = [], ReferenceName = ''node-a'',
                            ReferenceKind = [], ReferenceVersion = ''v1'', ObjectUid = [],
                            Labels = Map.empty, Annotations = Map.empty, Address = [],
                            Pod = Map.empty\<rparr>],
                 logs := [LogErr (Err ''object not found''), LogErr (Err ''node not found'')]\<rparr>,
        None)
   \<and> onEvent (ref_env\<lparr>getNodeAddress := \<lambda>d host. (d, Inr [''10.0.0.1''])\<rparr>) 0 event2 handler0
     = (handler0\<lparr>ch := [\<lparr>ID = ''e2'', Timestamp = 1600000000, Component = ''kubelet'',
                            Host = ''node-a'', Message = ''Started container'',
                            Namespace = ''shop'', Reason = ''Started'', ReferenceUID = ''n1'',
                            ReferenceNamespace = [], ReferenceName = ''node-a'',
                            ReferenceKind = [], ReferenceVersion = ''v1'', ObjectUid = [],
                            Labels = Map.empty, Annotations = Map.empty,
                            Address = [''10.0.0.1''], Pod = Map.empty\<rparr>],
                 logs := [LogErr (Err ''object not found'')]\<rparr>,
        None)"
proof -
  let ?env = "ref_env\<lparr>getNodeAddress := \<lambda>d host. (d, Inr [''10.0.0.1''])\<rparr>"
  have n: "GetNamespace event2 \<noteq> ''kube-system''" "GetNamespace event2 \<noteq> ''kubernetes''"
    "GetNamespace event2 \<noteq> ''kubernetes-dashboard''"
    by (simp_all add: event2_def event1_def)
  have g: "Cachier_Get 0 eventCacheTable (GetUID event2) (db handler0) = Inr NotFound"
    by (simp add: Cachier_Get_def tx_Get_def handler0_def newCache_def)
  have o: "getObject ref_env (db handler0) (InvolvedObject event2)
             = (db handler0, Inl (Err ''object not found''))"
    "getObject ?env (db handler0) (InvolvedObject event2)
             = (db handler0, Inl (Err ''object not found''))"
    by (simp_all add: ref_env_def event2_def event1_def)
  have a: "getNodeAddress ref_env (db handler0) ''node-a''
             = (db handler0, Inl (Err ''node not found''))"
    "getNodeAddress ?env (db handler0) ''node-a'' = (db handler0, Inr [''10.0.0.1''])"
    by (simp_all add: ref_env_def)
  have f: "GetUID event2 = ''e2''" "CreationTimestamp event2 = 1600000000"
    "src_Component (Source event2) = ''kubelet''" "src_Host (Source event2) = ''node-a''"
    "ev_Message event2 = ''Started container''" "GetNamespace event2 = ''shop''"
    "ev_Reason event2 = ''Started''" "ref_UID (InvolvedObject event2) = ''n1''"
    "ref_Name (InvolvedObject event2) = ''node-a''"
    "ref_APIVersion (InvolvedObject event2) = ''v1''"
    by (simp_all add: event2_def event1_def)
  have c: "ch handler0 = []" "logs handler0 = []" "handler0\<lparr>db := db handler0\<rparr> = handler0"
    by (simp_all add: handler0_def)
  from onEvent_tolerates_lookup_failures[OF n g, of ref_env]
  obtain ne lg where 1: "onEvent ref_env 0 event2 handler0
        = (handler0\<lparr>ch := [ne],
             logs := [LogErr (Err ''object not found''), LogErr (Err ''node not found'')] @ lg\<rparr>,
           None)"
    "ID ne = ''e2''" "Timestamp ne = 1600000000" "Component ne = ''kubelet''"
    "Host ne = ''node-a''" "Message ne = ''Started container''" "Namespace ne = ''shop''"
    "Reason ne = ''Started''" "ReferenceUID ne = ''n1''" "ReferenceName ne = ''node-a''"
    "ReferenceVersion ne = ''v1''" "Address ne = []"
    "ReferenceNamespace ne = []" "ReferenceKind ne = []" "ObjectUid ne = []"
    "Labels ne = Map.empty" "Annotations ne = Map.empty" "Pod ne = Map.empty" "lg = []"
    by (auto simp: o a f c)
  from onEvent_tolerates_lookup_failures[OF n g, of ?env]
  obtain ne' lg' where 2: "onEvent ?env 0 event2 handler0
        = (handler0\<lparr>ch := [ne'],
             logs := [LogErr (Err ''object not found'')] @ lg'\<rparr>,
           None)"
    "ID ne' = ''e2''" "Timestamp ne' = 1600000000" "Component ne' = ''kubelet''"
    "Host ne' = ''node-a''" "Message ne' = ''Started container''" "Namespace ne' = ''shop''"
    "Reason ne' = ''Started''" "ReferenceUID ne' = ''n1''" "ReferenceName ne' = ''node-a''"
    "ReferenceVersion ne' = ''v1''" "Address ne' = [''10.0.0.1'']"
    "ReferenceNamespace ne' = []" "ReferenceKind ne' = []" "ObjectUid ne' = []"
    "Labels ne' = Map.empty" "Annotations ne' = Map.empty" "Pod ne' = Map.empty" "lg' = []"
    by (auto simp: o a f c)
  have "ne = \<lparr>ID = ''e2'', Timestamp = 1600000000, Component = ''kubelet'',
                            Host = ''node-a'', Message = ''Started container'',
                            Namespace = ''shop'', Reason = ''Started'', ReferenceUID = ''n1'',
                            ReferenceNamespace = [], ReferenceName = ''node-a'',
                            ReferenceKind = [], ReferenceVersion = ''v1'', ObjectUid = [],
                            Labels = Map.empty, Annotations = Map.empty, Address = [],
                            Pod = Map.empty\<rparr>"
    by (rule L9Event.equality) (simp_all add: 1)
  moreover have "ne' = \<lparr>ID = ''e2'', Timestamp = 1600000000, Component = ''kubelet'',
                            Host = ''node-a'', Message = ''Started container'',
                            Namespace = ''shop'', Reason = ''Started'', ReferenceUID = ''n1'',
                            ReferenceNamespace = [], ReferenceName = ''node-a'',
                            ReferenceKind = [], ReferenceVersion = ''v1'', ObjectUid = [],
                            Labels = Map.empty, Annotations = Map.empty,
                            Address = [''10.0.0.1''], Pod = Map.empty\<rparr>"
    by (rule L9Event.equality) (simp_all add: 2)
  ultimately show ?thesis
    using 1(1,19) 2(1,19) by simp
qed

lemma logError_None: "snd r = None \<Longrightarrow> logError r = fst r"
  by (cases r) (simp add: logError_def)

lemma deliver_event_present:
  assumes "carried n = EventObj e"
    and "Cachier_Get t eventCacheTable (GetUID e) (db h) = Inr (Record b)"
  shows "deliver env (t, n) h = h"
  using assms onEvent_present[OF assms(2), of env]
  by (cases n) (simp_all add: OnAdd_def OnUpdate_def OnDelete_def logError_def)

lemma run_events_present:
  assumes "\<forall>(t, n) \<in> set ns. \<exists>e b. carried n = EventObj e \<and> GetUID e = uid
              \<and> Cachier_Get t eventCacheTable uid (db h) = Inr (Record b)"
  shows "run env ns h = h"
  using assms
proof (induction ns)
  case Nil
  then show ?case by simp
next
  case (Cons tn ns)
  obtain t n where tn: "tn = (t, n)" by (cases tn)
  from Cons.prems tn obtain e b where "carried n = EventObj e"
    "Cachier_Get t eventCacheTable (GetUID e) (db h) = Inr (Record b)"
    by auto
  then have "deliver env tn h = h"
    using deliver_event_present tn by blast
  with Cons show ?case by simp
qed

text \<open>
  C1, as the code has it. The handler never writes the \<^verbatim>\<open>events\<close> table, so it is not
  the handler that bounds the events sent per uid. What \<^verbatim>\<open>onEvent\<close> does: when the lookup
  finds a record for the uid, it returns the handler as it was (nothing sent, nothing
  logged, store unchanged) and no error; when it sends, the lookup had found no record, and
  it sends exactly one event, whose id is the uid; and any run of add, update and delete
  notifications carrying that uid, each delivered while the record is found, leaves the
  handler as it was.
\<close>

theorem onEvent_forwards_only_unrecorded:
  "(Cachier_Get now eventCacheTable (GetUID e) (db h) = Inr (Record b)
      \<longrightarrow> onEvent env now e h = (h, None))
   \<and> (ch (fst (onEvent env now e h)) \<noteq> ch h
      \<longrightarrow> Cachier_Get now eventCacheTable (GetUID e) (db h) = Inr NotFound
        \<and> (\<exists>ne. ch (fst (onEvent env now e h)) = ch h @ [ne] \<and> ID ne = GetUID e))
   \<and> ((\<forall>(t, n) \<in> set ns. \<exists>e' b'. carried n = EventObj e' \<and> GetUID e' = GetUID e
              \<and> Cachier_Get t eventCacheTable (GetUID e) (db h) = Inr (Record b'))
      \<longrightarrow> run env ns h = h)"
  using onEvent_present[of now e h b env] onEvent_pushes[of env now e h]
    run_events_present[of ns "GetUID e" h env]
  by blast

theorem onEvent_forwards_only_unrecorded_witness:
  "onEvent ref_env 0 event1 handler1 = (handler1, None)
   \<and> run ref_env [(1, Updated (EventObj event1) (EventObj event1)), (2, Deleted (EventObj event1))]
        handler1 = handler1
   \<and> ch (fst (onEvent ref_env 0 event1 handler0)) \<noteq> ch handler0
   \<and> Cachier_Get 0 eventCacheTable (GetUID event1) (db handler0) = Inr NotFound"
proof -
  have g: "Cachier_Get t eventCacheTable (GetUID event1) (db handler1) = Inr (Record ''{}'')"
    for t
    by (simp add: Cachier_Get_def tx_Get_def handler1_def handler0_def newCache_def
        eventCacheTable_def makeKey_def event1_def expired_def)
  have r: "\<forall>(t, n) \<in> set [(1, Updated (EventObj event1) (EventObj event1)),
                            (2, Deleted (EventObj event1))].
             \<exists>e' b'. carried n = EventObj e' \<and> GetUID e' = GetUID event1
               \<and> Cachier_Get t eventCacheTable (GetUID event1) (db handler1) = Inr (Record b')"
    using g by simp
  have n: "GetNamespace event1 \<noteq> ''kube-system''" "GetNamespace event1 \<noteq> ''kubernetes''"
    "GetNamespace event1 \<noteq> ''kubernetes-dashboard''"
    by (simp_all add: event1_def)
  have a: "Cachier_Get 0 eventCacheTable (GetUID event1) (db handler0) = Inr NotFound"
    by (simp add: Cachier_Get_def tx_Get_def handler0_def newCache_def)
  obtain db1 ro where o: "getObject ref_env (db handler0) (InvolvedObject event1) = (db1, ro)"
    by (metis surj_pair)
  obtain db2 ra where ad: "getNodeAddress ref_env db1 (src_Host (Source event1)) = (db2, ra)"
    by (metis surj_pair)
  have p: "ch (fst (onEvent ref_env 0 event1 handler0)) \<noteq> ch handler0"
    by (simp add: onEvent_absent[OF n a o ad])
  from onEvent_forwards_only_unrecorded[of 0 event1 handler1 "''{}''" ref_env
      "[(1, Updated (EventObj event1) (EventObj event1)), (2, Deleted (EventObj event1))]"]
    onEvent_forwards_only_unrecorded[of 0 event1 handler0 "''{}''" ref_env "[]"]
    g r p
  show ?thesis by blast
qed

lemma onEvent_event1_fresh:
  assumes "db h = newCache"
  shows "snd (onEvent ref_env t event1 h) = None
       \<and> db (fst (onEvent ref_env t event1 h)) = newCache
       \<and> map ID (ch (fst (onEvent ref_env t event1 h))) = map ID (ch h) @ [''e1'']"
proof -
  have n: "GetNamespace event1 \<noteq> ''kube-system''" "GetNamespace event1 \<noteq> ''kubernetes''"
    "GetNamespace event1 \<noteq> ''kubernetes-dashboard''"
    by (simp_all add: event1_def)
  have a: "Cachier_Get t eventCacheTable (GetUID event1) (db h) = Inr NotFound"
    by (simp add: assms Cachier_Get_def tx_Get_def newCache_def)
  have o: "getObject ref_env (db h) (InvolvedObject event1)
      = (newCache, snd (getObject ref_env (db h) (InvolvedObject event1)))"
    by (simp add: ref_env_def assms)
  have ad: "getNodeAddress ref_env newCache (src_Host (Source event1))
      = (newCache, Inl (Err ''node not found''))"
    by (simp add: ref_env_def)
  have u: "GetUID event1 = ''e1''"
    by (simp add: event1_def)
  show ?thesis
    unfolding onEvent_absent[OF n a o ad]
    by (simp add: makeL9Event_ID u)
qed

text \<open>
  C1 fails as stated: an add and an update notification for the event \<^verbatim>\<open>e1\<close>, delivered
  one after the other to a handler with a fresh store, each send an event with the id
  \<^verbatim>\<open>e1\<close>.
\<close>

theorem onEvent_forwards_twice_counterexample:
  "map ID (ch (run ref_env [(0, Added (EventObj event1)),
                            (1, Updated (EventObj event1) (EventObj event1))] handler0))
     = [''e1'', ''e1'']"
proof -
  let ?h1 = "fst (onEvent ref_env 0 event1 handler0)"
  have d0: "db handler0 = newCache" and c0: "ch handler0 = []"
    by (simp_all add: handler0_def)
  note 1 = onEvent_event1_fresh[OF d0, of 0]
  from 1 have d1: "db ?h1 = newCache" by simp
  note 2 = onEvent_event1_fresh[OF d1, of 1]
  have a1: "OnAdd ref_env 0 (EventObj event1) handler0 = ?h1"
    using 1 by (simp add: OnAdd_def logError_None)
  have a2: "OnUpdate ref_env 1 (EventObj event1) (EventObj event1) ?h1
      = fst (onEvent ref_env 1 event1 ?h1)"
    using 2 by (simp add: OnUpdate_def logError_None)
  show ?thesis
    using 1 2 by (simp add: a1 a2 c0)
qed

lemma tx_Get_error: "tx_Get now key d = Inl err \<Longrightarrow> err = ErrNotFound"
  by (auto simp: tx_Get_def split: option.splits if_splits)

lemma Cache_Get_eq:
  "Cache_Get unmarshal now table uid x d =
     (if closed d then ((False, x), Some ErrDatabaseClosed)
      else (case tx_Get now (makeKey table uid) d of
              Inl err \<Rightarrow> ((True, x), Some ErrNotFound)
            | Inr v \<Rightarrow> ((False, fst (unmarshal v x)), snd (unmarshal v x))))"
proof (cases "tx_Get now (makeKey table uid) d")
  case (Inl err)
  with tx_Get_error[OF Inl] show ?thesis
    by (simp add: Cache_Get_def db_View_def)
next
  case (Inr v)
  then show ?thesis
    by (simp add: Cache_Get_def db_View_def split: prod.splits)
qed

lemma onEvent_absent_sends:
  assumes "GetNamespace e \<noteq> ''kube-system''" "GetNamespace e \<noteq> ''kubernetes''"
    "GetNamespace e \<noteq> ''kubernetes-dashboard''"
    and "Cachier_Get now eventCacheTable (GetUID e) (db h) = Inr NotFound"
  shows "snd (onEvent env now e h) = None
       \<and> (\<exists>ne. ch (fst (onEvent env now e h)) = ch h @ [ne] \<and> ID ne = GetUID e)"
proof -
  obtain db1 ro where o: "getObject env (db h) (InvolvedObject e) = (db1, ro)"
    by (metis surj_pair)
  obtain db2 ra where a: "getNodeAddress env db1 (src_Host (Source e)) = (db2, ra)"
    by (metis surj_pair)
  show ?thesis
    by (simp add: onEvent_absent[OF assms o a] makeL9Event_ID)
qed

text \<open>
  C4, as the code has it. \<^verbatim>\<open>Cache.Get\<close> tells three outcomes apart: on an open store the
  flag \<^verbatim>\<open>missing\<close> is true exactly when the key has no live item, and then the error
  returned is the store's \<^verbatim>\<open>ErrNotFound\<close>; a key with a live item gives \<^verbatim>\<open>missing\<close>
  false with the decoder's object and error; a closed store gives \<^verbatim>\<open>missing\<close> false with
  \<^verbatim>\<open>ErrDatabaseClosed\<close>. The lookup that the handler calls reports an absent key as a
  result, not as an error, exactly when the store is open and the key has no live item.
  For an event outside the system namespaces, \<^verbatim>\<open>onEvent\<close> returns a lookup error
  and leaves the handler as it was, and on an absent record it returns no error and sends
  one event.
\<close>

theorem lookup_outcomes:
  "fst (fst (Cache_Get unmarshal now table uid x d))
     = (\<not> closed d \<and> tx_Get now (makeKey table uid) d = Inl ErrNotFound)
   \<and> (fst (fst (Cache_Get unmarshal now table uid x d))
        \<longrightarrow> Cache_Get unmarshal now table uid x d = ((True, x), Some ErrNotFound))
   \<and> (closed d
        \<longrightarrow> Cache_Get unmarshal now table uid x d = ((False, x), Some ErrDatabaseClosed))
   \<and> (\<forall>v. \<not> closed d \<and> tx_Get now (makeKey table uid) d = Inr v
        \<longrightarrow> Cache_Get unmarshal now table uid x d
              = ((False, fst (unmarshal v x)), snd (unmarshal v x)))
   \<and> (Cachier_Get now table uid d = Inr NotFound)
        = (\<not> closed d \<and> tx_Get now (makeKey table uid) d = Inl ErrNotFound)
   \<and> (GetNamespace e \<noteq> ''kube-system'' \<and> GetNamespace e \<noteq> ''kubernetes''
        \<and> GetNamespace e \<noteq> ''kubernetes-dashboard''
        \<longrightarrow> (\<forall>err. Cachier_Get now eventCacheTable (GetUID e) (db h) = Inl err
                \<longrightarrow> onEvent env now e h = (h, Some err))
          \<and> (Cachier_Get now eventCacheTable (GetUID e) (db h) = Inr NotFound
                \<longrightarrow> snd (onEvent env now e h) = None
                  \<and> (\<exists>ne. ch (fst (onEvent env now e h)) = ch h @ [ne])))"
proof -
  have 1: "fst (fst (Cache_Get unmarshal now table uid x d))
     = (\<not> closed d \<and> tx_Get now (makeKey table uid) d = Inl ErrNotFound)"
    using tx_Get_error[of now "makeKey table uid" d]
    by (cases "tx_Get now (makeKey table uid) d") (auto simp: Cache_Get_eq)
  have 2: "Cache_Get unmarshal now table uid x d = ((True, x), Some ErrNotFound)"
    if "fst (fst (Cache_Get unmarshal now table uid x d))"
    using that by (cases "tx_Get now (makeKey table uid) d") (auto simp: Cache_Get_eq split: if_splits)
  have 3: "Cache_Get unmarshal now table uid x d = ((False, x), Some ErrDatabaseClosed)"
    if "closed d"
    using that by (simp add: Cache_Get_eq)
  have 4: "Cache_Get unmarshal now table uid x d
              = ((False, fst (unmarshal v x)), snd (unmarshal v x))"
    if "\<not> closed d \<and> tx_Get now (makeKey table uid) d = Inr v" for v
    using that by (simp add: Cache_Get_eq)
  have 5: "(Cachier_Get now table uid d = Inr NotFound)
        = (\<not> closed d \<and> tx_Get now (makeKey table uid) d = Inl ErrNotFound)"
    using tx_Get_error[of now "makeKey table uid" d]
    by (cases "tx_Get now (makeKey table uid) d") (auto simp: Cachier_Get_def)
  have 6: "onEvent env now e h = (h, Some err)"
    if "GetNamespace e \<noteq> ''kube-system''" "GetNamespace e \<noteq> ''kubernetes''"
      "GetNamespace e \<noteq> ''kubernetes-dashboard''"
      "Cachier_Get now eventCacheTable (GetUID e) (db h) = Inl err" for err
    using that by (rule onEvent_error)
  have 7: "snd (onEvent env now e h) = None
                  \<and> (\<exists>ne. ch (fst (onEvent env now e h)) = ch h @ [ne])"
    if n: "GetNamespace e \<noteq> ''kube-system''" "GetNamespace e \<noteq> ''kubernetes''"
      "GetNamespace e \<noteq> ''kubernetes-dashboard''"
      and g: "Cachier_Get now eventCacheTable (GetUID e) (db h) = Inr NotFound"
    using onEvent_absent_sends[OF n g] by blast
  from 1 2 3 4 5 6 7 show ?thesis by blast
qed

theorem lookup_outcomes_witness:
  "Cache_Get (\<lambda>b x. (x, None)) 0 eventCacheTable ''e1'' new_L9Event (newCache\<lparr>closed := True\<rparr>)
     = ((False, new_L9Event), Some ErrDatabaseClosed)
   \<and> onEvent ref_env 0 event1 (handler0\<lparr>db := newCache\<lparr>closed := True\<rparr>\<rparr>)
     = (handler0\<lparr>db := newCache\<lparr>closed := True\<rparr>\<rparr>, Some ErrDatabaseClosed)
   \<and> snd (onEvent ref_env 0 event1 handler0) = None
   \<and> (\<exists>ne. ch (fst (onEvent ref_env 0 event1 handler0)) = ch handler0 @ [ne])"
proof -
  have n: "GetNamespace event1 \<noteq> ''kube-system'' \<and> GetNamespace event1 \<noteq> ''kubernetes''
        \<and> GetNamespace event1 \<noteq> ''kubernetes-dashboard''"
    by (simp add: event1_def)
  have c: "closed (newCache\<lparr>closed := True\<rparr>)"
    by simp
  have g1: "Cachier_Get 0 eventCacheTable (GetUID event1)
              (db (handler0\<lparr>db := newCache\<lparr>closed := True\<rparr>\<rparr>)) = Inl ErrDatabaseClosed"
    by (simp add: Cachier_Get_def)
  have g0: "Cachier_Get 0 eventCacheTable (GetUID event1) (db handler0) = Inr NotFound"
    by (simp add: Cachier_Get_def tx_Get_def handler0_def newCache_def)
  from lookup_outcomes[of "\<lambda>b x. (x, None)" 0 eventCacheTable "''e1''" new_L9Event
        "newCache\<lparr>closed := True\<rparr>" event1 "handler0\<lparr>db := newCache\<lparr>closed := True\<rparr>\<rparr>" ref_env]
    lookup_outcomes[of "\<lambda>b x. (x, None)" 0 eventCacheTable "''e1''" new_L9Event
        "newCache\<lparr>closed := True\<rparr>" event1 handler0 ref_env]
    n c g1 g0
  show ?thesis by blast
qed

text \<open>
  C4 fails as stated: on a fresh store, \<^verbatim>\<open>Cache.Get\<close> of a key that was never written
  returns \<^verbatim>\<open>missing\<close> true together with the error \<^verbatim>\<open>ErrNotFound\<close>: the absence is
  reported through the error result, not as an outcome without error.
\<close>

theorem Cache_Get_absent_counterexample:
  "Cache_Get (\<lambda>b x. (x, None)) 0 eventCacheTable ''e1'' new_L9Event newCache
     = ((True, new_L9Event), Some ErrNotFound)"
  by (simp add: Cache_Get_eq tx_Get_def newCache_def)

lemma Cache_Set_other:
  assumes "Cache_Set marshal now table uid obj d = (d', r)"
    and "makeKey table uid \<noteq> k"
  shows "map_of (items d') k = map_of (items d) k"
proof (cases r)
  case None
  with assms Set_success[of marshal now table uid obj d d'] show ?thesis
    by (auto simp: update_conv')
next
  case (Some err)
  with assms Set_failure[of marshal now table uid obj d d' err] show ?thesis
    by simp
qed

lemma setPodServices_other:
  assumes "\<forall>p \<in> set pods. makeKey (makeKey ''pod-service'' (GetUID p)) suid \<noteq> k"
  shows "map_of (items (fst (setPodServices env now suid pods d))) k = map_of (items d) k"
  using assms
proof (induction pods arbitrary: d)
  case Nil
  then show ?case by simp
next
  case (Cons p pods)
  obtain d' r where s: "Cache_Set (json_Marshal env) now (makeKey ''pod-service'' (GetUID p))
      suid (IBool True) d = (d', r)"
    by (metis surj_pair)
  from Cons.prems have "makeKey (makeKey ''pod-service'' (GetUID p)) suid \<noteq> k"
    by simp
  from Cache_Set_other[OF s this] have k: "map_of (items d') k = map_of (items d) k" .
  show ?case
  proof (cases r)
    case None
    with s Cons k show ?thesis by simp
  next
    case (Some err)
    with s k show ?thesis by simp
  qed
qed



lemma onService_gate:
  assumes "GetNamespace s \<noteq> ''kube-system''" "GetNamespace s \<noteq> ''kubernetes-dashboard''"
    "GetName s \<noteq> ''kubernetes''"
  shows "onService env now s ty h =
     (case Cachier_Get now eventCacheTable (GetUID s) (db h) of
        Inl err \<Rightarrow> (h, Some err)
      | Inr NotFound \<Rightarrow> saveService env now s ty h
      | Inr (Record b) \<Rightarrow>
          (case Unmarshal_L9Event env b of
             Inl err \<Rightarrow> (h, Some err)
           | Inr existingService \<Rightarrow>
               if GetResourceVersion s \<le> ReferenceVersion existingService
               then (h\<lparr>logs := logs h
                        @ [LogWords [''Service'', GetUID s, ''already processed'']]\<rparr>, None)
               else saveService env now s ty h))"
  using assms by (simp add: onService_def Let_def)













lemma getPodServices_loop_eq:
  "getPodServices_loop env now d serviceIds (services, lg)
     = (services @ List.map_filter (serviceName env now d) serviceIds,
        lg @ List.map_filter
               (\<lambda>sId. case Cachier_Get now ''service'' sId d of
                         Inr (Record b) \<Rightarrow>
                           (case Unmarshal_Service env b of
                              Inl err \<Rightarrow> Some (LogErr err) | Inr v \<Rightarrow> None)
                       | _ \<Rightarrow> None)
               serviceIds)"
proof (induction serviceIds arbitrary: services lg)
  case Nil
  then show ?case by (simp add: List.map_filter_simps)
next
  case (Cons sId serviceIds)
  show ?case
  proof (cases "Cachier_Get now ''service'' sId d")
    case (Inl err)
    with Cons show ?thesis by (simp add: List.map_filter_simps serviceName_def)
  next
    case (Inr r)
    show ?thesis
    proof (cases r)
      case NotFound
      with Inr Cons show ?thesis by (simp add: List.map_filter_simps serviceName_def)
    next
      case (Record b)
      with Inr Cons show ?thesis
        by (cases "Unmarshal_Service env b") (simp_all add: List.map_filter_simps serviceName_def)
    qed
  qed
qed

lemma getPodServices_listed:
  assumes "Cachier_List now (makeKey ''pod-service'' uid) d = Inr serviceIds"
  shows "fst (getPodServices env now d uid)
           = (List.map_filter (serviceName env now d) serviceIds, None)"
  using assms by (simp add: getPodServices_def getPodServices_loop_eq)

lemma Cachier_List_empty:
  assumes "\<not> closed d"
    and "\<forall>sid. map_of (items d) (makeKey table sid) = None"
  shows "Cachier_List now table d = Inr []"
proof -
  have "\<not> (take (length (makeKey table [])) (fst kv) = makeKey table [] \<and> \<not> expired now (snd kv))"
    if kv: "kv \<in> set (items d)" for kv
  proof
    assume a: "take (length (makeKey table [])) (fst kv) = makeKey table [] \<and> \<not> expired now (snd kv)"
    then have "fst kv = makeKey table [] @ drop (length (makeKey table [])) (fst kv)"
      by (metis append_take_drop_id)
    then have "fst kv = makeKey table (drop (length (makeKey table [])) (fst kv))"
      by (simp add: makeKey_def)
    moreover from kv have "map_of (items d) (fst kv) \<noteq> None"
      by (metis map_of_eq_None_iff image_eqI)
    ultimately show False using assms(2) by metis
  qed
  then have "filter (\<lambda>kv. take (length (makeKey table [])) (fst kv) = makeKey table []
                                 \<and> \<not> expired now (snd kv)) (items d) = []"
    by (simp add: filter_empty_conv)
  with assms(1) show ?thesis by (simp add: Cachier_List_def)
qed

lemma map_filter_skip:
  assumes "f x = None"
  shows "List.map_filter f (xs @ x # ys) = List.map_filter f (xs @ ys)"
  using assms by (simp add: List.map_filter_def)

text \<open>
  C5. When the store is open and holds no item under a key of the pod's reverse-index table
  \<^verbatim>\<open>pod-service-uid\<close>, \<^verbatim>\<open>getPodServices\<close> returns the empty list and no error, and logs
  nothing. Whenever the enumeration of the table succeeds, \<^verbatim>\<open>getPodServices\<close> returns no
  error, and its list holds, in the order of the ids, the names of the ids that resolve: an
  id whose lookup fails, finds no record, or finds a record that does not decode adds
  nothing, and the loop gives the same list with that id as without it.
\<close>

theorem getPodServices_empty_and_skips:
  "(\<not> closed d \<and> (\<forall>sid. map_of (items d) (makeKey (makeKey ''pod-service'' uid) sid) = None)
      \<longrightarrow> getPodServices env now d uid = (([], None), []))
   \<and> (\<forall>serviceIds. Cachier_List now (makeKey ''pod-service'' uid) d = Inr serviceIds
      \<longrightarrow> fst (getPodServices env now d uid)
            = (List.map_filter (serviceName env now d) serviceIds, None))
   \<and> (Cachier_Get now ''service'' sId d = Inl err
        \<or> Cachier_Get now ''service'' sId d = Inr NotFound
        \<or> (\<exists>b. Cachier_Get now ''service'' sId d = Inr (Record b)
               \<and> Unmarshal_Service env b = Inl err)
      \<longrightarrow> serviceName env now d sId = None
        \<and> fst (getPodServices_loop env now d (xs @ sId # ys) acc)
            = fst (getPodServices_loop env now d (xs @ ys) acc))"
proof -
  have 1: "getPodServices env now d uid = (([], None), [])"
    if "\<not> closed d" "\<forall>sid. map_of (items d) (makeKey (makeKey ''pod-service'' uid) sid) = None"
    using Cachier_List_empty[OF that, of now]
    by (simp add: getPodServices_def)
  have 2: "serviceName env now d sId = None
        \<and> fst (getPodServices_loop env now d (xs @ sId # ys) acc)
            = fst (getPodServices_loop env now d (xs @ ys) acc)"
    if "Cachier_Get now ''service'' sId d = Inl err
        \<or> Cachier_Get now ''service'' sId d = Inr NotFound
        \<or> (\<exists>b. Cachier_Get now ''service'' sId d = Inr (Record b)
               \<and> Unmarshal_Service env b = Inl err)"
  proof -
    from that have n: "serviceName env now d sId = None"
      by (auto simp: serviceName_def)
    obtain services lg where acc: "acc = (services, lg)" by (cases acc)
    from n show ?thesis
      by (simp add: acc getPodServices_loop_eq map_filter_skip)
  qed
  from 1 2 getPodServices_listed show ?thesis by blast
qed

theorem getPodServices_empty_and_skips_witness:
  "getPodServices ref_env 0 store1 ''p2'' = (([], None), [])
   \<and> Cachier_List 0 (makeKey ''pod-service'' ''p1'') store1 = Inr [''s1'', ''s9'']
   \<and> Cachier_Get 0 ''service'' ''s9'' store1 = Inr NotFound
   \<and> fst (getPodServices ref_env 0 store1 ''p1'') = ([''S1''], None)
   \<and> fst (getPodServices_loop ref_env 0 store1 ([''s1''] @ ''s9'' # []) ([], []))
       = fst (getPodServices_loop ref_env 0 store1 ([''s1''] @ []) ([], []))"
proof -
  have o: "\<not> closed store1"
    by (simp add: store1_def newCache_def)
  have e: "\<forall>sid. map_of (items store1) (makeKey (makeKey ''pod-service'' ''p2'') sid) = None"
    by (simp add: store1_def makeKey_def)
  have l: "Cachier_List 0 (makeKey ''pod-service'' ''p1'') store1 = Inr [''s1'', ''s9'']"
    by (simp add: Cachier_List_def store1_def newCache_def makeKey_def expired_def)
  have g1: "Cachier_Get 0 ''service'' ''s1'' store1 = Inr (Record ''S1'')"
    by (simp add: Cachier_Get_def tx_Get_def store1_def newCache_def makeKey_def expired_def)
  have g9: "Cachier_Get 0 ''service'' ''s9'' store1 = Inr NotFound"
    by (simp add: Cachier_Get_def tx_Get_def store1_def newCache_def makeKey_def)
  have n1: "serviceName ref_env 0 store1 ''s1'' = Some ''S1''"
    by (simp add: serviceName_def g1) (simp add: ref_env_def)
  from getPodServices_empty_and_skips[of store1 "''p2''" ref_env 0 "''s9''" ErrNotFound "[''s1'']" "[]"
        "([], [])"]
    getPodServices_empty_and_skips[of store1 "''p1''" ref_env 0 "''s9''" ErrNotFound "[''s1'']" "[]"
        "([], [])"]
    o e l g9 n1
  show ?thesis by (simp add: List.map_filter_simps)
qed

lemma Cache_Set_keeps:
  assumes "Cache_Set marshal now table uid obj d = (d', r)"
    and "\<exists>it. map_of (items d) k = Some it \<and> exat it = None"
  shows "\<exists>it. map_of (items d') k = Some it \<and> exat it = None"
proof (cases r)
  case None
  with assms(1) Set_success[of marshal now table uid obj d d']
  obtain b where "items d' = AList.update (makeKey table uid) \<lparr>val = b, exat = None\<rparr> (items d)"
    by blast
  with assms(2) show ?thesis
    by (cases "makeKey table uid = k") (auto simp: update_conv')
next
  case (Some err)
  with assms Set_failure[of marshal now table uid obj d d' err] show ?thesis
    by simp
qed

lemma Cache_Set_writes:
  assumes "Cache_Set marshal now table uid obj d = (d', None)"
  shows "\<exists>b. marshal obj = Inr b \<and> \<not> closed d'
       \<and> map_of (items d') (makeKey table uid) = Some \<lparr>val = b, exat = None\<rparr>"
  using Set_success[OF assms] by (auto simp: update_conv')

lemma setPodServices_keeps:
  assumes "setPodServices env now suid pods d = (d', r)"
    and "\<exists>it. map_of (items d) k = Some it \<and> exat it = None"
  shows "\<exists>it. map_of (items d') k = Some it \<and> exat it = None"
  using assms
proof (induction pods arbitrary: d)
  case Nil
  then show ?case by simp
next
  case (Cons p pods)
  obtain d1 r1 where s: "Cache_Set (json_Marshal env) now (makeKey ''pod-service'' (GetUID p))
      suid (IBool True) d = (d1, r1)"
    by (metis surj_pair)
  from Cache_Set_keeps[OF s Cons.prems(2)]
  have k: "\<exists>it. map_of (items d1) k = Some it \<and> exat it = None" .
  show ?case
  proof (cases r1)
    case None
    with s Cons.prems(1) have "setPodServices env now suid pods d1 = (d', r)" by simp
    from Cons.IH[OF this k] show ?thesis .
  next
    case (Some err)
    with s Cons.prems(1) have "d' = d1" by simp
    with k show ?thesis by simp
  qed
qed

lemma setPodServices_open:
  assumes "setPodServices env now suid pods d = (d', r)"
  shows "closed d' = closed d"
  using assms
proof (induction pods arbitrary: d)
  case Nil
  then show ?case by simp
next
  case (Cons p pods)
  obtain d1 r1 where s: "Cache_Set (json_Marshal env) now (makeKey ''pod-service'' (GetUID p))
      suid (IBool True) d = (d1, r1)"
    by (metis surj_pair)
  show ?case
  proof (cases r1)
    case None
    with s have s': "Cache_Set (json_Marshal env) now (makeKey ''pod-service'' (GetUID p))
      suid (IBool True) d = (d1, None)" by simp
    from Set_success[OF s'] have c: "closed d1 = closed d" by auto
    from s' Cons.prems have "setPodServices env now suid pods d1 = (d', r)" by simp
    from Cons.IH[OF this] c show ?thesis by simp
  next
    case (Some err)
    with s have s': "Cache_Set (json_Marshal env) now (makeKey ''pod-service'' (GetUID p))
      suid (IBool True) d = (d1, Some err)" by simp
    from Set_failure[OF s'] have "d1 = d" .
    moreover from s' Cons.prems have "d' = d1" by simp
    ultimately show ?thesis by simp
  qed
qed

lemma setPodServices_registers:
  assumes "setPodServices env now suid pods d = (d', None)"
    and "p \<in> set pods"
  shows "\<exists>it. map_of (items d') (makeKey (makeKey ''pod-service'' (GetUID p)) suid) = Some it
       \<and> exat it = None"
  using assms
proof (induction pods arbitrary: d)
  case Nil
  then show ?case by simp
next
  case (Cons q pods)
  obtain d1 r1 where s: "Cache_Set (json_Marshal env) now (makeKey ''pod-service'' (GetUID q))
      suid (IBool True) d = (d1, r1)"
    by (metis surj_pair)
  with Cons.prems(1) have r1: "r1 = None" and rest: "setPodServices env now suid pods d1 = (d', None)"
    by (cases r1; simp)+
  show ?case
  proof (cases "p = q")
    case True
    from s r1 have s': "Cache_Set (json_Marshal env) now (makeKey ''pod-service'' (GetUID q))
      suid (IBool True) d = (d1, None)" by simp
    from Cache_Set_writes[OF s']
    have "\<exists>it. map_of (items d1) (makeKey (makeKey ''pod-service'' (GetUID q)) suid) = Some it
       \<and> exat it = None"
      by auto
    from setPodServices_keeps[OF rest this] True show ?thesis by simp
  next
    case False
    with Cons.prems(2) have "p \<in> set pods" by simp
    from Cons.IH[OF rest this] show ?thesis .
  qed
qed

lemma service_key_apart:
  "makeKey ''service-pods'' x \<noteq> makeKey ''service'' x"
  "makeKey (makeKey ''pod-service'' y) x \<noteq> makeKey ''service'' z"
  by (simp_all add: makeKey_def)

lemma onService_pushed:
  assumes "onService env now s ty h = (h1, None)" and "ch h1 \<noteq> ch h"
  shows "saveService env now s ty h = (h1, None)"
  using assms
  by (auto simp: onService_def Let_def split: if_splits sum.splits result.splits)

lemma saveService_success:
  assumes "saveService env now s ty h = (h1, None)"
  shows "\<exists>d1 d2 pods d3.
      Cache_Set (json_Marshal env) now ''service'' (GetUID s) (IService s) (db h) = (d1, None)
    \<and> getPods env d1 s = (d2, Inr pods)
    \<and> Cache_Set (json_Marshal env) now ''service-pods'' (GetUID s) (IPods pods) d2 = (d3, None)
    \<and> setPodServices env now (GetUID s) pods d3 = (db h1, None)
    \<and> ch h1 = ch h @ [makeL9ServiceEvent env now s pods ty]"
  using assms
  by (auto simp: saveService_def Let_def split: prod.splits option.splits sum.splits)

lemma Cachier_List_member:
  assumes "\<not> closed d"
    and "map_of (items d) (makeKey table sid) = Some it" and "exat it = None"
  shows "\<exists>ids. Cachier_List now table d = Inr ids \<and> sid \<in> set ids"
proof -
  let ?n = "length (makeKey table [])"
  let ?keep = "\<lambda>kv. take ?n (fst kv) = makeKey table [] \<and> \<not> expired now (snd kv)"
  from assms(2) have m: "(makeKey table sid, it) \<in> set (items d)"
    by (rule map_of_SomeD)
  have k: "makeKey table sid = makeKey table [] @ sid"
    by (simp add: makeKey_def)
  have "?keep (makeKey table sid, it)"
    by (simp add: k assms(3) expired_def)
  with m have "(makeKey table sid, it) \<in> set (filter ?keep (items d))"
    by simp
  then have "(\<lambda>kv. drop ?n (fst kv)) (makeKey table sid, it)
      \<in> (\<lambda>kv. drop ?n (fst kv)) ` set (filter ?keep (items d))"
    by (rule imageI)
  moreover have "(\<lambda>kv. drop ?n (fst kv)) (makeKey table sid, it) = sid"
    by (simp add: k)
  ultimately have "sid \<in> set (map (\<lambda>kv. drop ?n (fst kv)) (filter ?keep (items d)))"
    by simp
  with assms(1) show ?thesis
    by (simp add: Cachier_List_def)
qed

lemma map_filter_member:
  assumes "x \<in> set xs" and "f x = Some y"
  shows "y \<in> set (List.map_filter f xs)"
  using assms by (force simp: List.map_filter_def)

lemma getPodServices_includes:
  assumes o: "\<not> closed d"
    and svc: "map_of (items d) (makeKey ''service'' suid) = Some \<lparr>val = b, exat = None\<rparr>"
    and dec: "Unmarshal_Service env b = Inr s'"
    and reg: "map_of (items d) (makeKey (makeKey ''pod-service'' puid) suid) = Some it"
      "exat it = None"
  shows "\<exists>names lg. getPodServices env now d puid = ((names, None), lg) \<and> GetName s' \<in> set names"
proof -
  from Cachier_List_member[OF o reg, of now]
  obtain ids where l: "Cachier_List now (makeKey ''pod-service'' puid) d = Inr ids"
    and m: "suid \<in> set ids"
    by blast
  have g: "Cachier_Get now ''service'' suid d = Inr (Record b)"
    using o svc by (simp add: Cachier_Get_def tx_Get_def expired_def)
  have n: "serviceName env now d suid = Some (GetName s')"
    by (simp add: serviceName_def g dec)
  from getPodServices_listed[OF l, of env]
  have "fst (getPodServices env now d puid)
      = (List.map_filter (serviceName env now d) ids, None)" .
  moreover have "GetName s' \<in> set (List.map_filter (serviceName env now d) ids)"
    using m n by (rule map_filter_member)
  ultimately show ?thesis
    by (cases "getPodServices env now d puid") auto
qed

lemma makeL9Event_pod:
  assumes "ToLower (GetKind u) = ''pod''"
    and "unstructuredToPod env u = Inr p"
    and "getPodServices env now d (GetUID p) = ((names, err), lg)"
  shows "Pod (fst (makeL9Event env now d e (Some u) address)) ''impacted_services''
           = Some (AStrings names)"
  using assms by (simp add: makeL9Event_def addPodDetails_def)

lemma ToLower_Pod: "ToLower ''Pod'' = ''pod''"
  by code_simp

lemma onService_registers_framed:
  assumes proc: "onService env now s ty h = (h1, None)" "ch h1 \<noteq> ch h"
    and gp: "snd (getPods env
               (fst (Cache_Set (json_Marshal env) now ''service'' (GetUID s) (IService s) (db h)))
               s) = Inr pods"
    and keep: "map_of (items (fst (getPods env
               (fst (Cache_Set (json_Marshal env) now ''service'' (GetUID s) (IService s) (db h)))
               s))) (makeKey ''service'' (GetUID s))
             = map_of (items
               (fst (Cache_Set (json_Marshal env) now ''service'' (GetUID s) (IService s) (db h))))
               (makeKey ''service'' (GetUID s))"
    and p: "p \<in> set pods"
  shows "\<not> closed (db h1)
       \<and> (\<exists>b. json_Marshal env (IService s) = Inr b
              \<and> map_of (items (db h1)) (makeKey ''service'' (GetUID s))
                  = Some \<lparr>val = b, exat = None\<rparr>)
       \<and> (\<exists>it. map_of (items (db h1)) (makeKey (makeKey ''pod-service'' (GetUID p)) (GetUID s))
                  = Some it \<and> exat it = None)"
proof -
  from saveService_success[OF onService_pushed[OF proc]]
  obtain d1 d2 pods' d3 where
    s1: "Cache_Set (json_Marshal env) now ''service'' (GetUID s) (IService s) (db h) = (d1, None)"
    and g: "getPods env d1 s = (d2, Inr pods')"
    and s3: "Cache_Set (json_Marshal env) now ''service-pods'' (GetUID s) (IPods pods') d2
              = (d3, None)"
    and s4: "setPodServices env now (GetUID s) pods' d3 = (db h1, None)"
    by blast
  from s1 gp g have pods: "pods' = pods" by simp
  from s1 keep g have k2: "map_of (items d2) (makeKey ''service'' (GetUID s))
      = map_of (items d1) (makeKey ''service'' (GetUID s))" by simp
  from Cache_Set_writes[OF s1] obtain b where b: "json_Marshal env (IService s) = Inr b"
    and m1: "map_of (items d1) (makeKey ''service'' (GetUID s)) = Some \<lparr>val = b, exat = None\<rparr>"
    by blast
  from Cache_Set_other[OF s3 service_key_apart(1)] m1 k2
  have m3: "map_of (items d3) (makeKey ''service'' (GetUID s)) = Some \<lparr>val = b, exat = None\<rparr>"
    by simp
  from setPodServices_other[of pods' "GetUID s" "makeKey ''service'' (GetUID s)" env now d3] s4 m3
  have m4: "map_of (items (db h1)) (makeKey ''service'' (GetUID s))
      = Some \<lparr>val = b, exat = None\<rparr>"
    by (simp add: service_key_apart)
  from Cache_Set_writes[OF s3] have "\<not> closed d3" by blast
  with setPodServices_open[OF s4] have o: "\<not> closed (db h1)" by simp
  from setPodServices_registers[OF s4] p pods
  have r: "\<exists>it. map_of (items (db h1)) (makeKey (makeKey ''pod-service'' (GetUID p)) (GetUID s))
                  = Some it \<and> exat it = None"
    by simp
  from o b m4 r show ?thesis by blast
qed

text \<open>
  C3. Let \<^verbatim>\<open>onService\<close> process a service: it returns no error and sends the service's
  event, and the pod resolution it made returned a list with the pod \<^verbatim>\<open>p\<close> and kept the
  service's record, which the handler had just written, as it was. Let the stored service
  decode to a service of the same name. Take any later handler and an event that passes the
  filter and the dedup gate on it, and whose involved object is resolved to an object of
  kind pod that converts to a pod with the uid of \<^verbatim>\<open>p\<close>. If the store that the two
  lookups of \<^verbatim>\<open>onEvent\<close> hand on is open and still holds the service's record and the
  pod's reverse-index entry as \<^verbatim>\<open>onService\<close> left them, whatever else has been written,
  then \<^verbatim>\<open>onEvent\<close> sends one event whose pod map has under \<^verbatim>\<open>impacted_services\<close> a list
  of names that contains the service's name.
\<close>

theorem impacted_services_after_onService:
  assumes proc: "onService env t1 s ty h = (h1, None)" "ch h1 \<noteq> ch h"
    and gp: "snd (getPods env
               (fst (Cache_Set (json_Marshal env) t1 ''service'' (GetUID s) (IService s) (db h)))
               s) = Inr pods"
    and keep: "map_of (items (fst (getPods env
               (fst (Cache_Set (json_Marshal env) t1 ''service'' (GetUID s) (IService s) (db h)))
               s))) (makeKey ''service'' (GetUID s))
             = map_of (items
               (fst (Cache_Set (json_Marshal env) t1 ''service'' (GetUID s) (IService s) (db h))))
               (makeKey ''service'' (GetUID s))"
    and p: "p \<in> set pods"
    and codec: "\<forall>b. json_Marshal env (IService s) = Inr b
                 \<longrightarrow> (\<exists>s'. Unmarshal_Service env b = Inr s' \<and> GetName s' = GetName s)"
    and watched: "GetNamespace e \<noteq> ''kube-system''" "GetNamespace e \<noteq> ''kubernetes''"
      "GetNamespace e \<noteq> ''kubernetes-dashboard''"
    and gate: "Cachier_Get t2 eventCacheTable (GetUID e) (db h2) = Inr NotFound"
    and obj: "snd (getObject env (db h2) (InvolvedObject e)) = Inr u"
    and kind: "ToLower (GetKind u) = ''pod''"
    and topod: "unstructuredToPod env u = Inr p'"
    and same: "GetUID p' = GetUID p"
    and opened: "\<not> closed (fst (getNodeAddress env (fst (getObject env (db h2) (InvolvedObject e)))
                               (src_Host (Source e))))"
    and kept: "map_of (items (fst (getNodeAddress env
                                 (fst (getObject env (db h2) (InvolvedObject e)))
                                 (src_Host (Source e)))))
                 (makeKey ''service'' (GetUID s))
               = map_of (items (db h1)) (makeKey ''service'' (GetUID s))"
      "map_of (items (fst (getNodeAddress env
                                 (fst (getObject env (db h2) (InvolvedObject e)))
                                 (src_Host (Source e)))))
                 (makeKey (makeKey ''pod-service'' (GetUID p)) (GetUID s))
               = map_of (items (db h1)) (makeKey (makeKey ''pod-service'' (GetUID p)) (GetUID s))"
  shows "\<exists>ne names. snd (onEvent env t2 e h2) = None
       \<and> ch (fst (onEvent env t2 e h2)) = ch h2 @ [ne]
       \<and> ID ne = GetUID e
       \<and> Pod ne ''impacted_services'' = Some (AStrings names)
       \<and> GetName s \<in> set names"
proof -
  obtain db1 ro where o1: "getObject env (db h2) (InvolvedObject e) = (db1, ro)"
    by (metis surj_pair)
  with obj have o: "getObject env (db h2) (InvolvedObject e) = (db1, Inr u)"
    by simp
  obtain dR ra where a: "getNodeAddress env db1 (src_Host (Source e)) = (dR, ra)"
    by (metis surj_pair)
  from opened o a have op: "\<not> closed dR" by simp
  from onService_registers_framed[OF proc gp keep p] obtain b it where
    b: "json_Marshal env (IService s) = Inr b"
    and m: "map_of (items (db h1)) (makeKey ''service'' (GetUID s))
              = Some \<lparr>val = b, exat = None\<rparr>"
    and r: "map_of (items (db h1)) (makeKey (makeKey ''pod-service'' (GetUID p)) (GetUID s))
              = Some it" "exat it = None"
    by blast
  from kept o a m r have mR: "map_of (items dR) (makeKey ''service'' (GetUID s))
              = Some \<lparr>val = b, exat = None\<rparr>"
    and rR: "map_of (items dR) (makeKey (makeKey ''pod-service'' (GetUID p)) (GetUID s))
              = Some it"
    by simp_all
  from codec b obtain s' where dec: "Unmarshal_Service env b = Inr s'"
    and name: "GetName s' = GetName s"
    by blast
  from getPodServices_includes[OF op mR dec rR r(2), of t2] same
  obtain names lg where
    gps: "getPodServices env t2 dR (GetUID p') = ((names, None), lg)"
    and mem: "GetName s' \<in> set names"
    by auto
  let ?ne = "fst (makeL9Event env t2 dR e (Some u)
                    (case ra of Inl err \<Rightarrow> [] | Inr addr \<Rightarrow> addr))"
  note ev = onEvent_absent[OF watched gate o a]
  have 1: "snd (onEvent env t2 e h2) = None"
    by (simp add: ev)
  have 2: "ch (fst (onEvent env t2 e h2)) = ch h2 @ [?ne]"
    by (simp add: ev)
  have 3: "ID ?ne = GetUID e"
    by (rule makeL9Event_ID)
  have 4: "Pod ?ne ''impacted_services'' = Some (AStrings names)"
    using kind topod gps by (rule makeL9Event_pod)
  from 1 2 3 4 mem name show ?thesis by auto
qed

lemma caching_env_codec:
  "json_Marshal caching_env = json_Marshal ref_env"
  "Unmarshal_Service caching_env = Unmarshal_Service ref_env"
  "Unmarshal_L9Event caching_env = Unmarshal_L9Event ref_env"
  "runtime_Encode caching_env = runtime_Encode ref_env"
  "runtime_DecodeInto caching_env = runtime_DecodeInto ref_env"
  by (simp_all add: caching_env_def)

lemma onService_service1_caching:
  "onService caching_env 0 service1 ''addedService'' handler0
     = (\<lparr>db = \<lparr>closed = False,
               items = [(''service-s1'', \<lparr>val = ''S1'', exat = None\<rparr>),
                        (''selected-s1'', \<lparr>val = ''s1'', exat = None\<rparr>),
                        (''service-pods-s1'', \<lparr>val = ''p1'', exat = None\<rparr>),
                        (''pod-service-p1-s1'', \<lparr>val = ''true'', exat = None\<rparr>)],
               idxs = [(''service'', \<lparr>pattern = ''service-*'', lessfn = IndexString\<rparr>),
                       (''selected'', \<lparr>pattern = ''selected-*'', lessfn = IndexString\<rparr>),
                       (''service-pods'', \<lparr>pattern = ''service-pods-*'', lessfn = IndexString\<rparr>),
                       (''pod-service-p1'',
                        \<lparr>pattern = ''pod-service-p1-*'', lessfn = IndexString\<rparr>)]\<rparr>,
         ch = [makeL9ServiceEvent caching_env 0 service1
                 [new_Pod\<lparr>GetName := ''p1'', GetUID := ''p1''\<rparr>] ''addedService''],
         logs = []\<rparr>, None)"
proof -
  let ?pod = "new_Pod\<lparr>GetName := ''p1'', GetUID := ''p1''\<rparr>"
  let ?Da = "\<lparr>closed = False,
              items = [(''service-s1'', \<lparr>val = ''S1'', exat = None\<rparr>)],
              idxs = [(''service'', \<lparr>pattern = ''service-*'', lessfn = IndexString\<rparr>)]\<rparr>"
  let ?Db = "\<lparr>closed = False,
              items = [(''service-s1'', \<lparr>val = ''S1'', exat = None\<rparr>),
                       (''selected-s1'', \<lparr>val = ''s1'', exat = None\<rparr>)],
              idxs = [(''service'', \<lparr>pattern = ''service-*'', lessfn = IndexString\<rparr>),
                      (''selected'', \<lparr>pattern = ''selected-*'', lessfn = IndexString\<rparr>)]\<rparr>"
  let ?Dc = "\<lparr>closed = False,
              items = [(''service-s1'', \<lparr>val = ''S1'', exat = None\<rparr>),
                       (''selected-s1'', \<lparr>val = ''s1'', exat = None\<rparr>),
                       (''service-pods-s1'', \<lparr>val = ''p1'', exat = None\<rparr>)],
              idxs = [(''service'', \<lparr>pattern = ''service-*'', lessfn = IndexString\<rparr>),
                      (''selected'', \<lparr>pattern = ''selected-*'', lessfn = IndexString\<rparr>),
                      (''service-pods'', \<lparr>pattern = ''service-pods-*'', lessfn = IndexString\<rparr>)]\<rparr>"
  let ?Dd = "\<lparr>closed = False,
               items = [(''service-s1'', \<lparr>val = ''S1'', exat = None\<rparr>),
                        (''selected-s1'', \<lparr>val = ''s1'', exat = None\<rparr>),
                        (''service-pods-s1'', \<lparr>val = ''p1'', exat = None\<rparr>),
                        (''pod-service-p1-s1'', \<lparr>val = ''true'', exat = None\<rparr>)],
               idxs = [(''service'', \<lparr>pattern = ''service-*'', lessfn = IndexString\<rparr>),
                       (''selected'', \<lparr>pattern = ''selected-*'', lessfn = IndexString\<rparr>),
                       (''service-pods'', \<lparr>pattern = ''service-pods-*'', lessfn = IndexString\<rparr>),
                       (''pod-service-p1'',
                        \<lparr>pattern = ''pod-service-p1-*'', lessfn = IndexString\<rparr>)]\<rparr>"
  have g: "Cachier_Get 0 eventCacheTable (GetUID service1) (db handler0) = Inr NotFound"
    by (simp add: Cachier_Get_def tx_Get_def handler0_def newCache_def)
  have f: "GetNamespace service1 \<noteq> ''kube-system''"
    "GetNamespace service1 \<noteq> ''kubernetes-dashboard''" "GetName service1 \<noteq> ''kubernetes''"
    by (simp_all add: service1_def)
  have m: "json_Marshal caching_env (IService service1) = Inr ''S1''"
    "json_Marshal caching_env (IBool True) = Inr ''true''"
    "json_Marshal caching_env (IPods [?pod]) = Inr ''p1''"
    by (simp_all add: caching_env_codec ref_env_def service1_def)
  have u: "GetUID service1 = ''s1''" "GetUID ?pod = ''p1''"
    by (simp_all add: service1_def)
  have d0: "db handler0 = newCache"
    by (simp add: handler0_def)
  have s1: "Cache_Set (json_Marshal caching_env) 0 ''service'' ''s1'' (IService service1) newCache
      = (?Da, None)"
    by (simp add: Cache_Set_def ExpireSet_eq m newCache_def makeKey_def)
  have gp: "getPods caching_env ?Da service1 = (?Db, Inr [?pod])"
    by (simp add: caching_env_def)
       (simp add: ref_env_def service1_def Cache_Set_def ExpireSet_eq makeKey_def)
  have s3: "Cache_Set (json_Marshal caching_env) 0 ''service-pods'' ''s1'' (IPods [?pod]) ?Db
      = (?Dc, None)"
    by (simp add: Cache_Set_def ExpireSet_eq m makeKey_def)
  have s4': "Cache_Set (json_Marshal caching_env) 0 (makeKey ''pod-service'' ''p1'') ''s1''
      (IBool True) ?Dc = (?Dd, None)"
    by (simp add: Cache_Set_def ExpireSet_eq m makeKey_def)
  have s4: "setPodServices caching_env 0 ''s1'' [?pod] ?Dc = (?Dd, None)"
    by (simp only: setPodServices.simps u s4' prod.case option.case)
  have "saveService caching_env 0 service1 ''addedService'' handler0
      = (handler0\<lparr>db := ?Dd,
           ch := ch handler0 @ [makeL9ServiceEvent caching_env 0 service1 [?pod] ''addedService'']\<rparr>,
         None)"
    by (simp only: saveService_def Let_def u d0 s1 gp s3 s4 prod.case option.case sum.case)
  then have "saveService caching_env 0 service1 ''addedService'' handler0
      = (\<lparr>db = ?Dd,
           ch = [makeL9ServiceEvent caching_env 0 service1 [?pod] ''addedService''],
           logs = []\<rparr>, None)"
    by (simp add: handler0_def)
  with g show ?thesis
    by (simp add: onService_gate[OF f])
qed

theorem impacted_services_after_onService_witness:
  "\<exists>ne names.
      snd (onEvent caching_env 5 event1
             (OnAdd caching_env 3 (EventObj event2)
                (fst (onService caching_env 0 service1 ''addedService'' handler0)))) = None
    \<and> ch (fst (onEvent caching_env 5 event1
             (OnAdd caching_env 3 (EventObj event2)
                (fst (onService caching_env 0 service1 ''addedService'' handler0)))))
        = ch (OnAdd caching_env 3 (EventObj event2)
                (fst (onService caching_env 0 service1 ''addedService'' handler0))) @ [ne]
    \<and> ID ne = ''e1''
    \<and> Pod ne ''impacted_services'' = Some (AStrings names)
    \<and> ''S1'' \<in> set names"
proof -
  let ?h1 = "fst (onService caching_env 0 service1 ''addedService'' handler0)"
  let ?h2 = "OnAdd caching_env 3 (EventObj event2) ?h1"
  let ?pod = "new_Pod\<lparr>GetName := ''p1'', GetUID := ''p1''\<rparr>"
  let ?u = "\<lparr>GetName = ''web-1'', GetNamespace = ''shop'', GetUID = ''p1'',
             GetResourceVersion = [], GetLabels = Map.empty, GetAnnotations = Map.empty,
             GetKind = ''Pod''\<rparr>"
  let ?p' = "new_Pod\<lparr>GetUID := ''p1'', Kind := [], APIVersion := []\<rparr>"
  let ?D1 = "\<lparr>closed = False,
               items = [(''service-s1'', \<lparr>val = ''S1'', exat = None\<rparr>),
                        (''selected-s1'', \<lparr>val = ''s1'', exat = None\<rparr>),
                        (''service-pods-s1'', \<lparr>val = ''p1'', exat = None\<rparr>),
                        (''pod-service-p1-s1'', \<lparr>val = ''true'', exat = None\<rparr>)],
               idxs = [(''service'', \<lparr>pattern = ''service-*'', lessfn = IndexString\<rparr>),
                       (''selected'', \<lparr>pattern = ''selected-*'', lessfn = IndexString\<rparr>),
                       (''service-pods'', \<lparr>pattern = ''service-pods-*'', lessfn = IndexString\<rparr>),
                       (''pod-service-p1'',
                        \<lparr>pattern = ''pod-service-p1-*'', lessfn = IndexString\<rparr>)]\<rparr>"
  let ?D2 = "?D1\<lparr>items := items ?D1 @ [(''object-n1'', \<lparr>val = ''Node'', exat = None\<rparr>),
                                       (''node-node-a'', \<lparr>val = ''node-a'', exat = None\<rparr>)],
                  idxs := idxs ?D1 @ [(''object'', \<lparr>pattern = ''object-*'', lessfn = IndexString\<rparr>),
                                      (''node'', \<lparr>pattern = ''node-*'', lessfn = IndexString\<rparr>)]\<rparr>"
  let ?D3 = "?D2\<lparr>items := items ?D2 @ [(''object-p1'', \<lparr>val = ''Pod'', exat = None\<rparr>)]\<rparr>"
  have proc: "onService caching_env 0 service1 ''addedService'' handler0 = (?h1, None)"
    by (simp add: onService_service1_caching)
  have d1: "db ?h1 = ?D1"
    by (simp add: onService_service1_caching)
  have c0: "ch handler0 = []"
    by (simp add: handler0_def)
  have pushed: "ch ?h1 \<noteq> ch handler0"
    by (simp add: onService_service1_caching c0)
  have gp: "snd (getPods caching_env
               (fst (Cache_Set (json_Marshal caching_env) 0 ''service'' (GetUID service1)
                      (IService service1) (db handler0))) service1) = Inr [?pod]"
    by (simp add: caching_env_def) (simp add: ref_env_def service1_def)
  have keep: "map_of (items (fst (getPods caching_env
               (fst (Cache_Set (json_Marshal caching_env) 0 ''service'' (GetUID service1)
                      (IService service1) (db handler0))) service1)))
               (makeKey ''service'' (GetUID service1))
             = map_of (items
               (fst (Cache_Set (json_Marshal caching_env) 0 ''service'' (GetUID service1)
                      (IService service1) (db handler0))))
               (makeKey ''service'' (GetUID service1))"
    by (simp add: caching_env_def)
       (simp add: ref_env_def service1_def Cache_Set_def ExpireSet_eq handler0_def newCache_def
          makeKey_def)
  have p: "?pod \<in> set [?pod]"
    by simp
  have codec: "\<forall>b. json_Marshal caching_env (IService service1) = Inr b
                 \<longrightarrow> (\<exists>s'. Unmarshal_Service caching_env b = Inr s'
                        \<and> GetName s' = GetName service1)"
    by (simp add: caching_env_codec ref_env_def)
  have n2: "GetNamespace event2 \<noteq> ''kube-system''" "GetNamespace event2 \<noteq> ''kubernetes''"
    "GetNamespace event2 \<noteq> ''kubernetes-dashboard''"
    by (simp_all add: event2_def event1_def)
  have g2: "Cachier_Get 3 eventCacheTable (GetUID event2) (db ?h1) = Inr NotFound"
    by (simp add: d1 Cachier_Get_def tx_Get_def makeKey_def eventCacheTable_def
        event2_def event1_def)
  have o2: "getObject caching_env (db ?h1) (InvolvedObject event2)
      = (fst (getObject caching_env ?D1 (InvolvedObject event2)),
         snd (getObject caching_env ?D1 (InvolvedObject event2)))"
    by (simp add: d1)
  have a2: "getNodeAddress caching_env (fst (getObject caching_env ?D1 (InvolvedObject event2)))
              (src_Host (Source event2))
      = (?D2, Inr [''10.0.0.1''])"
    by (simp add: caching_env_def)
       (simp add: event2_def event1_def Cache_Set_def ExpireSet_eq makeKey_def)
  have d2: "db ?h2 = ?D2"
    by (simp add: OnAdd_def logError_def onEvent_absent[OF n2 g2 o2 a2])
  have watched: "GetNamespace event1 \<noteq> ''kube-system''" "GetNamespace event1 \<noteq> ''kubernetes''"
    "GetNamespace event1 \<noteq> ''kubernetes-dashboard''"
    by (simp_all add: event1_def)
  have gate: "Cachier_Get 5 eventCacheTable (GetUID event1) (db ?h2) = Inr NotFound"
    by (simp add: d2 Cachier_Get_def tx_Get_def makeKey_def eventCacheTable_def event1_def)
  have o3: "getObject caching_env (db ?h2) (InvolvedObject event1) = (?D3, Inr ?u)"
    unfolding d2
    by (simp add: caching_env_def)
       (simp add: ref_env_def event1_def Cache_Set_def ExpireSet_eq makeKey_def)
  then have obj: "snd (getObject caching_env (db ?h2) (InvolvedObject event1)) = Inr ?u"
    by simp
  have kind: "ToLower (GetKind ?u) = ''pod''"
    by (simp add: ToLower_Pod)
  have topod: "unstructuredToPod caching_env ?u = Inr ?p'"
    by (simp add: unstructuredToPod_def caching_env_codec ref_env_def)
  have same: "GetUID ?p' = GetUID ?pod"
    by simp
  have a3: "fst (getNodeAddress caching_env
                  (fst (getObject caching_env (db ?h2) (InvolvedObject event1)))
                  (src_Host (Source event1))) = ?D3"
    unfolding o3 fst_conv
    by (simp add: caching_env_def)
       (simp add: event1_def Cache_Set_def ExpireSet_eq makeKey_def)
  have opened: "\<not> closed (fst (getNodeAddress caching_env
                  (fst (getObject caching_env (db ?h2) (InvolvedObject event1)))
                  (src_Host (Source event1))))"
    by (simp add: a3)
  have kept: "map_of (items (fst (getNodeAddress caching_env
                  (fst (getObject caching_env (db ?h2) (InvolvedObject event1)))
                  (src_Host (Source event1)))))
                 (makeKey ''service'' (GetUID service1))
               = map_of (items (db ?h1)) (makeKey ''service'' (GetUID service1))"
      "map_of (items (fst (getNodeAddress caching_env
                  (fst (getObject caching_env (db ?h2) (InvolvedObject event1)))
                  (src_Host (Source event1)))))
                 (makeKey (makeKey ''pod-service'' (GetUID ?pod)) (GetUID service1))
               = map_of (items (db ?h1))
                   (makeKey (makeKey ''pod-service'' (GetUID ?pod)) (GetUID service1))"
    unfolding a3 d1
    by (simp_all add: makeKey_def service1_def)
  from impacted_services_after_onService[OF proc pushed gp keep p codec watched gate obj kind
      topod same opened kept]
  show ?thesis
    by (simp add: event1_def service1_def)
qed

end
